theory Spec2Isabelle
  imports Complex_Main
begin

section \<open>BLTouch probe controller: klippy/extras/bltouch.py\<close>

text \<open>
  A shallow embedding of \<^verbatim>\<open>BLTouchEndstopWrapper\<close>. Python floats are
  modelled by the reals they approximate, except for the pin move time of
  \<^verbatim>\<open>__init__\<close>, which is computed in double precision with its roundings; the
  attributes of \<^verbatim>\<open>self\<close> by the record \<open>bltouch\<close>, and the state of the
  objects the wrapper talks to (toolhead, reactor, pwm pin, endstop, steppers) by the
  record \<open>world\<close>. A method is a function from the pair of both to a result and the
  new pair; an exception is the \<open>Inl\<close> branch of the result and keeps the state the
  method had mutated before it raised.
\<close>

subsection \<open>Module constants\<close>

definition SIGNAL_PERIOD :: real where
  "SIGNAL_PERIOD = 0.025600"

definition MIN_CMD_TIME :: real where
  "MIN_CMD_TIME = 4 * SIGNAL_PERIOD"

definition TEST_TIME :: real where
  "TEST_TIME = 5 * 60"

definition ENDSTOP_REST_TIME :: real where
  "ENDSTOP_REST_TIME = 0.001"

definition ENDSTOP_SAMPLE_TIME :: real where
  "ENDSTOP_SAMPLE_TIME = 0.000015"

definition ENDSTOP_SAMPLE_COUNT :: int where
  "ENDSTOP_SAMPLE_COUNT = 4"

text \<open>The dictionary \<^verbatim>\<open>Commands\<close>; its keys are \<^verbatim>\<open>None\<close> and five names.\<close>

definition Commands :: "string option \<rightharpoonup> real" where
  "Commands = map_of
     [(None, 0.0), (Some ''pin_down'', 0.000700), (Some ''touch_mode'', 0.001200),
      (Some ''pin_up'', 0.001500), (Some ''self_test'', 0.001800),
      (Some ''reset'', 0.002200)]"

subsection \<open>Errors and results\<close>

datatype error =
    EndstopError string
  | ConfigError string
  | KeyError

type_synonym 'a result = "error + 'a"

subsection \<open>Double precision\<close>

text \<open>
  Python's float is the IEEE 754 binary64 format: 53 significant bits, and every
  literal, division and multiplication rounded to the nearest double, ties to the even
  significand. \<open>binary64_round x\<close> is the double nearest to the real \<open>x\<close>, for an
  exponent range without an upper bound: a value of \<open>2 ^ 1024\<close> or more stands for
  \<^verbatim>\<open>inf\<close>. The model computes in this format where the source rounds a quotient up
  to a whole number (\<^verbatim>\<open>__init__\<close>, the pin move time), since there one rounding
  decides between two whole numbers; everywhere else a float is the real number it
  approximates.
\<close>

text \<open>\<open>log2_nat n\<close> is the position of the leading bit of \<open>n\<close>.\<close>

fun log2_nat :: "nat \<Rightarrow> nat" where
  "log2_nat n = (if n < 2 then 0 else Suc (log2_nat (n div 2)))"

declare log2_nat.simps [simp del]

text \<open>The binary exponent \<open>e\<close> of a positive real: \<open>2 powi e \<le> x < 2 powi (e + 1)\<close>.\<close>

definition binary_exponent :: "real \<Rightarrow> int" where
  "binary_exponent x =
     (if 1 \<le> x then int (log2_nat (nat \<lfloor>x\<rfloor>))
      else - int (Suc (log2_nat (nat (\<lceil>1 / x\<rceil> - 1)))))"

definition round_half_even :: "real \<Rightarrow> int" where
  "round_half_even y =
     (let f = \<lfloor>y\<rfloor>; d = y - real_of_int f
      in if d < 1 / 2 then f else if 1 / 2 < d then f + 1 else if even f then f else f + 1)"

text \<open>
  The unit in the last place is \<open>2 powi (e - 52)\<close>, and \<open>2 powi (- 1074)\<close> below the
  normal range.
\<close>

definition binary64_round :: "real \<Rightarrow> real" where
  "binary64_round x =
     (if x = 0 then 0
      else (let e = max (binary_exponent \<bar>x\<bar>) (- 1022);
                u = 2 powi (e - 52)
            in sgn x * (real_of_int (round_half_even (\<bar>x\<bar> / u)) * u)))"

text \<open>The module constants \<^verbatim>\<open>SIGNAL_PERIOD\<close> and \<^verbatim>\<open>MIN_CMD_TIME\<close> as the doubles they are.\<close>

definition SIGNAL_PERIOD_double :: real where
  "SIGNAL_PERIOD_double = binary64_round 0.025600"

definition MIN_CMD_TIME_double :: real where
  "MIN_CMD_TIME_double = binary64_round (4 * SIGNAL_PERIOD_double)"

subsection \<open>The wrapper's attributes and its configuration\<close>

record config =
  z_offset :: real
  triggered_on_pin_up_touch_mode :: "bool option"
  triggered_on_pin_up :: "bool option"
  cfg_pin_move_time :: "real option"

record bltouch =
  position_endstop :: real
  next_cmd_time :: real
  next_test_time :: real
  pin_up_touch_triggered :: bool
  pin_up_triggered :: bool
  start_mcu_pos :: "(nat \<times> int) list"
  pin_move_time :: real

text \<open>
  \<^verbatim>\<open>config.getfloat(key, default)\<close> and \<^verbatim>\<open>config.getboolean(key, default)\<close>:
  an absent key (\<open>None\<close>) yields the default.
\<close>

definition getdefault :: "'a option \<Rightarrow> 'a \<Rightarrow> 'a" where
  "getdefault v d = (case v of None \<Rightarrow> d | Some x \<Rightarrow> x)"

text \<open>
  \<^verbatim>\<open>__init__\<close>, the attributes it assigns. Pins, the gcode command and the debug
  callback are registrations with other objects and set no attribute. The values of a
  configuration are the floats that \<^verbatim>\<open>getfloat\<close> returns. The pin move time is
  computed as Python computes it: the default is the double of the literal 0.200, the
  quotient is rounded to a double before \<^verbatim>\<open>math.ceil\<close>, and so is the product.
\<close>

definition init :: "config \<Rightarrow> bltouch" where
  "init cfg =
     (let pmt = max (getdefault (cfg_pin_move_time cfg) (binary64_round 0.200))
                  MIN_CMD_TIME_double
      in \<lparr> position_endstop = z_offset cfg,
           next_cmd_time = 0,
           next_test_time = 0,
           pin_up_touch_triggered = getdefault (triggered_on_pin_up_touch_mode cfg) True,
           pin_up_triggered = getdefault (triggered_on_pin_up cfg) False,
           start_mcu_pos = [],
           pin_move_time =
             binary64_round
               (real_of_int \<lceil>binary64_round (pmt / SIGNAL_PERIOD_double)\<rceil>
                  * SIGNAL_PERIOD_double) \<rparr>)"

subsection \<open>The collaborators\<close>

text \<open>
  The calls the endstop object receives. \<^verbatim>\<open>home_start\<close> has the keyword argument
  \<^verbatim>\<open>triggered\<close>, which only \<^verbatim>\<open>verify_state\<close> passes (\<open>None\<close>: not passed).
\<close>

datatype endstop_call =
    Home_start real real int real "bool option"
  | Home_wait real
  | Home_prepare
  | Home_finalize

text \<open>
  Steppers are objects; the model names them by numbers and keeps their commanded
  position and their mcu position counter in two stores. \<open>pwm_log\<close> lists the calls
  \<^verbatim>\<open>mcu_pwm.set_pwm(print_time, value)\<close>, \<open>endstop_log\<close> the calls to the endstop,
  \<open>est_queries\<close> the calls \<^verbatim>\<open>estimated_print_time(curtime)\<close>.
\<close>

record world =
  last_move_time :: real
  monotonic :: real
  est_queries :: "real list"
  pwm_log :: "(real \<times> real) list"
  endstop_log :: "endstop_call list"
  steppers :: "nat list"
  commanded_position :: "nat \<Rightarrow> real"
  mcu_position :: "nat \<Rightarrow> int"

text \<open>
  What the wrapper cannot decide itself is a parameter: the clock translation of the
  mcu (\<^verbatim>\<open>print_time_to_clock\<close>, \<^verbatim>\<open>seconds_to_clock\<close>, \<^verbatim>\<open>clock_to_print_time\<close>,
  \<^verbatim>\<open>estimated_print_time\<close>), and what \<^verbatim>\<open>mcu_endstop.home_wait\<close> finds: whether it
  raises \<^verbatim>\<open>TimeoutError\<close>, and the commanded positions it leaves behind.
\<close>

record collab =
  mcu_freq :: real
  print_time_to_clock :: "real \<Rightarrow> int"
  seconds_to_clock :: "real \<Rightarrow> int"
  clock_to_print_time :: "int \<Rightarrow> real"
  estimated_print_time :: "real \<Rightarrow> real"
  home_wait_sim :: "world \<Rightarrow> real \<Rightarrow> bool \<times> (nat \<Rightarrow> real)"

text \<open>
  Modelled from the spec: the clock translation of the mcu (mcu.py is not part of the
  sources). The spec asks of it to convert "a timeline timestamp <-> absolute hardware
  clock ticks at sub-microsecond precision": a tick is shorter than a microsecond, a
  conversion to ticks is off by less than one tick, and ticks convert back exactly.
  The spec does not say how a conversion rounds, and the contract does not either.
\<close>

definition clock_precise :: "collab \<Rightarrow> bool" where
  "clock_precise c \<longleftrightarrow>
     1000000 < mcu_freq c \<and>
     (\<forall>t. \<bar>real_of_int (print_time_to_clock c t) - t * mcu_freq c\<bar> < 1) \<and>
     (\<forall>d. \<bar>real_of_int (seconds_to_clock c d) - d * mcu_freq c\<bar> < 1) \<and>
     (\<forall>k. clock_to_print_time c k = real_of_int k / mcu_freq c)"

text \<open>
  Modelled from the spec: the motion timeline (toolhead.py is not part of the sources),
  which "exposes last scheduled move time (read) and insert pause of duration d
  (write)".
\<close>

definition get_last_move_time :: "world \<Rightarrow> real" where
  "get_last_move_time w = last_move_time w"

definition dwell :: "real \<Rightarrow> world \<Rightarrow> world" where
  "dwell d w = w\<lparr>last_move_time := last_move_time w + d\<rparr>"

text \<open>
  Modelled from the spec: the actuation primitive (the pwm pin object of mcu.py, which
  is not part of the sources), "program(timestamp, duty_fraction) with a fixed cycle
  period". The model records the call.
\<close>

definition set_pwm :: "real \<Rightarrow> real \<Rightarrow> world \<Rightarrow> world" where
  "set_pwm print_time val w = w\<lparr>pwm_log := pwm_log w @ [(print_time, val)]\<rparr>"

text \<open>
  Modelled from the spec: the sensing primitive (the endstop object of mcu.py and the
  steppers of stepper.py, which are not part of the sources), "arm(start_time,
  sample_interval, sample_count, rest_interval, expected_state) -> boolean result by
  end_time, raising a timeout signal if unmet; exposes per-axis commanded position
  get/set and hardware position counter read". The model records the calls; a wait
  ends as \<open>home_wait_sim\<close> says and leaves the commanded positions it says; the
  prepare and finalize hooks do nothing else.
\<close>

definition endstop_home_start ::
  "real \<Rightarrow> real \<Rightarrow> int \<Rightarrow> real \<Rightarrow> bool option \<Rightarrow> world \<Rightarrow> world" where
  "endstop_home_start print_time sample_time sample_count rest_time trig w =
     w\<lparr>endstop_log := endstop_log w @
          [Home_start print_time sample_time sample_count rest_time trig]\<rparr>"

text \<open>
  \<^verbatim>\<open>mcu_endstop.home_wait\<close>, under the same model: the flag says whether it raised
  \<^verbatim>\<open>TimeoutError\<close>.
\<close>

definition endstop_home_wait :: "collab \<Rightarrow> real \<Rightarrow> world \<Rightarrow> bool \<times> world" where
  "endstop_home_wait c home_end_time w =
     (case home_wait_sim c w home_end_time of
        (timed_out, pos) \<Rightarrow>
          (timed_out,
           w\<lparr>endstop_log := endstop_log w @ [Home_wait home_end_time],
             commanded_position := pos\<rparr>))"

definition endstop_home_prepare :: "world \<Rightarrow> world" where
  "endstop_home_prepare w = w\<lparr>endstop_log := endstop_log w @ [Home_prepare]\<rparr>"

definition endstop_home_finalize :: "world \<Rightarrow> world" where
  "endstop_home_finalize w = w\<lparr>endstop_log := endstop_log w @ [Home_finalize]\<rparr>"

subsection \<open>The methods\<close>

type_synonym state = "bltouch \<times> world"

text \<open>Sequencing: an exception of the first call skips the rest.\<close>

definition and_then ::
  "'a result \<times> state \<Rightarrow> ('a \<Rightarrow> state \<Rightarrow> 'b result \<times> state) \<Rightarrow> 'b result \<times> state" where
  "and_then m f = (case m of (Inl e, st) \<Rightarrow> (Inl e, st) | (Inr a, st) \<Rightarrow> f a st)"

definition sync_mcu_print_time :: "collab \<Rightarrow> state \<Rightarrow> state" where
  "sync_mcu_print_time c st =
     (case st of (b, w) \<Rightarrow>
        (let curtime = monotonic w;
             est_time = estimated_print_time c curtime;
             w' = w\<lparr>est_queries := est_queries w @ [curtime]\<rparr>
         in (b\<lparr>next_cmd_time := max (next_cmd_time b) (est_time + MIN_CMD_TIME)\<rparr>, w')))"

definition sync_print_time :: "state \<Rightarrow> state" where
  "sync_print_time st =
     (case st of (b, w) \<Rightarrow>
        (let print_time = get_last_move_time w
         in if next_cmd_time b > print_time
            then (b, dwell (next_cmd_time b - print_time) w)
            else (b\<lparr>next_cmd_time := print_time\<rparr>, w)))"

text \<open>
  \<^verbatim>\<open>send_cmd\<close>: \<^verbatim>\<open>Commands[cmd]\<close> raises \<^verbatim>\<open>KeyError\<close> for an unknown command,
  before anything is sent.
\<close>

definition send_cmd :: "collab \<Rightarrow> string option \<Rightarrow> real \<Rightarrow> state \<Rightarrow> real result \<times> state" where
  "send_cmd c cmd duration st =
     (case st of (b, w) \<Rightarrow>
        (case Commands cmd of
           None \<Rightarrow> (Inl KeyError, (b, w))
         | Some width \<Rightarrow>
             (let w' = set_pwm (next_cmd_time b) (width / SIGNAL_PERIOD) w;
                  cmd_clock = print_time_to_clock c (next_cmd_time b)
                              + seconds_to_clock c (max duration MIN_CMD_TIME);
                  t = clock_to_print_time c cmd_clock
              in (Inr t, (b\<lparr>next_cmd_time := t\<rparr>, w')))))"

text \<open>The loop \<^verbatim>\<open>for s, pos in zip(...): s.set_commanded_position(pos)\<close>.\<close>

fun set_commanded_positions :: "(nat \<times> real) list \<Rightarrow> world \<Rightarrow> world" where
  "set_commanded_positions [] w = w"
| "set_commanded_positions ((s, pos) # rest) w =
     set_commanded_positions rest (w\<lparr>commanded_position := (commanded_position w)(s := pos)\<rparr>)"

definition verify_state ::
  "collab \<Rightarrow> real \<Rightarrow> real \<Rightarrow> bool \<Rightarrow> string \<Rightarrow> state \<Rightarrow> unit result \<times> state" where
  "verify_state c check_start_time check_end_time triggered msg st =
     (case st of (b, w) \<Rightarrow>
        (let prev_positions = map (commanded_position w) (steppers w);
             w1 = endstop_home_start check_start_time ENDSTOP_SAMPLE_TIME
                    ENDSTOP_SAMPLE_COUNT ENDSTOP_REST_TIME (Some triggered) w
         in case endstop_home_wait c check_end_time w1 of
              (timed_out, w2) \<Rightarrow>
                if timed_out
                then (Inl (EndstopError (''BLTouch failed to '' @ msg)), (b, w2))
                else (Inr (),
                      (b, set_commanded_positions (zip (steppers w2) prev_positions) w2))))"

definition raise_probe :: "collab \<Rightarrow> state \<Rightarrow> unit result \<times> state" where
  "raise_probe c st =
     and_then (send_cmd c (Some ''reset'') MIN_CMD_TIME st) (\<lambda>_ st1.
     and_then (send_cmd c (Some ''pin_up'') (pin_move_time (fst st1)) st1) (\<lambda>check_start_time st2.
     and_then (send_cmd c None MIN_CMD_TIME st2) (\<lambda>check_end_time st3.
       verify_state c check_start_time check_end_time (pin_up_triggered (fst st3))
         ''raise probe'' st3)))"

text \<open>
  \<^verbatim>\<open>printer_state\<close>: on \<^verbatim>\<open>'connect'\<close> an \<^verbatim>\<open>EndstopError\<close> becomes a config error
  with the same text.
\<close>

definition printer_state :: "collab \<Rightarrow> string \<Rightarrow> state \<Rightarrow> unit result \<times> state" where
  "printer_state c state_name st =
     (if state_name = ''connect''
      then (case raise_probe c (sync_mcu_print_time c st) of
              (Inl (EndstopError e), st') \<Rightarrow> (Inl (ConfigError e), st')
            | r \<Rightarrow> r)
      else (Inr (), st))"

definition test_sensor :: "collab \<Rightarrow> state \<Rightarrow> unit result \<times> state" where
  "test_sensor c st =
     (case st of (b, w) \<Rightarrow>
        if \<not> pin_up_touch_triggered b \<or> pin_up_triggered b
        then (Inr (), (b, w))
        else
          (let print_time = get_last_move_time w
           in if print_time < next_test_time b
              then (Inr (), (b\<lparr>next_test_time := print_time + TEST_TIME\<rparr>, w))
              else
                and_then (send_cmd c (Some ''reset'') (pin_move_time b)
                            (sync_print_time (b, w))) (\<lambda>check_start_time st2.
                and_then (send_cmd c (Some ''touch_mode'') MIN_CMD_TIME st2) (\<lambda>check_end_time st3.
                and_then (send_cmd c None MIN_CMD_TIME st3) (\<lambda>_ st4.
                and_then (verify_state c check_start_time check_end_time True
                            ''verify sensor state'' st4) (\<lambda>_ st5.
                  (Inr (),
                   sync_print_time
                     ((fst st5)\<lparr>next_test_time := check_end_time + TEST_TIME\<rparr>, snd st5))))))))"

definition home_prepare :: "collab \<Rightarrow> state \<Rightarrow> unit result \<times> state" where
  "home_prepare c st =
     and_then (test_sensor c st) (\<lambda>_ st1.
     and_then (send_cmd c (Some ''pin_down'') (pin_move_time (fst st1) - MIN_CMD_TIME)
                 (sync_print_time st1)) (\<lambda>_ st2.
     and_then (send_cmd c None MIN_CMD_TIME st2) (\<lambda>_ st3.
       (case sync_print_time st3 of (b, w) \<Rightarrow>
          (let w' = endstop_home_prepare w
           in (Inr (),
               (b\<lparr>start_mcu_pos := map (\<lambda>s. (s, mcu_position w' s)) (steppers w')\<rparr>, w')))))))"

text \<open>
  The loop of \<^verbatim>\<open>home_finalize\<close> over \<^verbatim>\<open>start_mcu_pos\<close>: true when it raises, which
  it does at the first stepper whose mcu position equals the recorded one.
\<close>

fun failed_to_deploy :: "world \<Rightarrow> (nat \<times> int) list \<Rightarrow> bool" where
  "failed_to_deploy w [] = False"
| "failed_to_deploy w ((s, mcu_pos) # rest) =
     (if mcu_position w s = mcu_pos then True else failed_to_deploy w rest)"

definition home_finalize :: "collab \<Rightarrow> state \<Rightarrow> unit result \<times> state" where
  "home_finalize c st =
     and_then (raise_probe c (sync_mcu_print_time c st)) (\<lambda>_ st1.
       (case sync_print_time st1 of (b, w) \<Rightarrow>
          if failed_to_deploy w (start_mcu_pos b)
          then (Inl (EndstopError ''BLTouch failed to deploy''), (b, w))
          else (Inr (), (b, endstop_home_finalize w))))"

definition home_start :: "real \<Rightarrow> real \<Rightarrow> int \<Rightarrow> real \<Rightarrow> state \<Rightarrow> state" where
  "home_start print_time sample_time sample_count rest_time st =
     (case st of (b, w) \<Rightarrow>
        (let rest_time' = min rest_time ENDSTOP_REST_TIME
         in (b, endstop_home_start print_time sample_time sample_count rest_time' None w)))"

definition get_position_endstop :: "state \<Rightarrow> real" where
  "get_position_endstop st = position_endstop (fst st)"

text \<open>
  \<^verbatim>\<open>cmd_BLTOUCH_DEBUG\<close>; \<open>cmd\<close> is the parameter \<^verbatim>\<open>COMMAND\<close> (\<open>None\<close> when absent).
  The texts it sends to the gcode console and to the log are no part of the state.
\<close>

definition cmd_BLTOUCH_DEBUG :: "collab \<Rightarrow> string option \<Rightarrow> state \<Rightarrow> unit result \<times> state" where
  "cmd_BLTOUCH_DEBUG c cmd st =
     (if cmd = None \<or> Commands cmd = None
      then (Inr (), st)
      else
        and_then (send_cmd c cmd (pin_move_time (fst st)) (sync_print_time st)) (\<lambda>_ st1.
        and_then (send_cmd c None MIN_CMD_TIME st1) (\<lambda>_ st2.
          (Inr (), sync_print_time st2))))"

subsection \<open>Calls and what happens between them\<close>

text \<open>The methods as one type of calls; \<open>call\<close> gives the state a call leaves, returned or raised.\<close>

datatype op =
    Op_printer_state string
  | Op_sync_mcu_print_time
  | Op_sync_print_time
  | Op_send_cmd "string option" real
  | Op_verify_state real real bool string
  | Op_raise_probe
  | Op_test_sensor
  | Op_home_prepare
  | Op_home_finalize
  | Op_home_start real real int real
  | Op_cmd_BLTOUCH_DEBUG "string option"

fun call :: "collab \<Rightarrow> op \<Rightarrow> state \<Rightarrow> state" where
  "call c (Op_printer_state n) st = snd (printer_state c n st)"
| "call c Op_sync_mcu_print_time st = sync_mcu_print_time c st"
| "call c Op_sync_print_time st = sync_print_time st"
| "call c (Op_send_cmd cmd duration) st = snd (send_cmd c cmd duration st)"
| "call c (Op_verify_state t0 t1 triggered msg) st = snd (verify_state c t0 t1 triggered msg st)"
| "call c Op_raise_probe st = snd (raise_probe c st)"
| "call c Op_test_sensor st = snd (test_sensor c st)"
| "call c Op_home_prepare st = snd (home_prepare c st)"
| "call c Op_home_finalize st = snd (home_finalize c st)"
| "call c (Op_home_start print_time sample_time sample_count rest_time) st =
     home_start print_time sample_time sample_count rest_time st"
| "call c (Op_cmd_BLTOUCH_DEBUG cmd) st = snd (cmd_BLTOUCH_DEBUG c cmd st)"

text \<open>
  Between two calls the rest of the printer acts on the collaborators: moves are
  scheduled, steppers move, time passes. \<open>Motion f\<close> is such a change.
\<close>

datatype event = Call op | Motion "world \<Rightarrow> world"

fun happen :: "collab \<Rightarrow> event \<Rightarrow> state \<Rightarrow> state" where
  "happen c (Call x) st = call c x st"
| "happen c (Motion f) st = (fst st, f (snd st))"

fun trace :: "collab \<Rightarrow> event list \<Rightarrow> state \<Rightarrow> state list" where
  "trace c [] st = [st]"
| "trace c (e # es) st = st # trace c es (happen c e st)"

fun timeline_nondecreasing :: "event \<Rightarrow> bool" where
  "timeline_nondecreasing (Call x) = True"
| "timeline_nondecreasing (Motion f) = (\<forall>w. last_move_time w \<le> last_move_time (f w))"

text \<open>The calls that start with \<^verbatim>\<open>self.sync_mcu_print_time()\<close>, and that call itself.\<close>

fun performs_realtime_sync :: "op \<Rightarrow> bool" where
  "performs_realtime_sync (Op_printer_state n) = (n = ''connect'')"
| "performs_realtime_sync Op_sync_mcu_print_time = True"
| "performs_realtime_sync Op_home_finalize = True"
| "performs_realtime_sync _ = False"

subsection \<open>Observations\<close>

text \<open>
  Whether the wait of \<^verbatim>\<open>verify_state\<close> raises \<^verbatim>\<open>TimeoutError\<close>: what
  \<^verbatim>\<open>home_wait\<close> finds once the endstop is armed.
\<close>

definition verify_times_out :: "collab \<Rightarrow> real \<Rightarrow> real \<Rightarrow> bool \<Rightarrow> world \<Rightarrow> bool" where
  "verify_times_out c check_start_time check_end_time triggered w =
     fst (home_wait_sim c
            (endstop_home_start check_start_time ENDSTOP_SAMPLE_TIME ENDSTOP_SAMPLE_COUNT
               ENDSTOP_REST_TIME (Some triggered) w)
            check_end_time)"

text \<open>How often \<^verbatim>\<open>mcu_endstop.home_finalize()\<close> was called.\<close>

definition finalize_calls :: "world \<Rightarrow> nat" where
  "finalize_calls w = length (filter (\<lambda>x. x = Home_finalize) (endstop_log w))"

text \<open>The time \<^verbatim>\<open>send_cmd\<close> computes from the time \<open>t\<close> and a duration.\<close>

definition next_time :: "collab \<Rightarrow> real \<Rightarrow> real \<Rightarrow> real" where
  "next_time c t duration =
     clock_to_print_time c
       (print_time_to_clock c t + seconds_to_clock c (max duration MIN_CMD_TIME))"

text \<open>The test interval never ends later than one interval after the last move.\<close>

definition test_time_bounded :: "state \<Rightarrow> bool" where
  "test_time_bounded st \<longleftrightarrow> next_test_time (fst st) \<le> last_move_time (snd st) + TEST_TIME"

subsection \<open>A simulated printer\<close>

text \<open>
  A 16 MHz mcu whose conversions truncate, and an endstop whose wait times out or not
  and moves every commanded position by \<open>shift\<close>.
\<close>

definition sim_collab :: "bool \<Rightarrow> real \<Rightarrow> collab" where
  "sim_collab timeout shift =
     \<lparr> mcu_freq = 16000000,
       print_time_to_clock = (\<lambda>t. \<lfloor>t * 16000000\<rfloor>),
       seconds_to_clock = (\<lambda>d. \<lfloor>d * 16000000\<rfloor>),
       clock_to_print_time = (\<lambda>k. real_of_int k / 16000000),
       estimated_print_time = (\<lambda>curtime. curtime),
       home_wait_sim = (\<lambda>w home_end_time. (timeout, \<lambda>s. commanded_position w s + shift)) \<rparr>"

definition sim_world :: "nat list \<Rightarrow> world" where
  "sim_world ss =
     \<lparr> last_move_time = 10, monotonic = 10, est_queries = [], pwm_log = [],
       endstop_log = [], steppers = ss, commanded_position = (\<lambda>s. 5),
       mcu_position = (\<lambda>s. 100) \<rparr>"

definition default_config :: config where
  "default_config =
     \<lparr> z_offset = 2.5, triggered_on_pin_up_touch_mode = None,
       triggered_on_pin_up = None, cfg_pin_move_time = None \<rparr>"

subsection \<open>Comparing two states\<close>

text \<open>
  \<open>later st st'\<close>: neither cursor nor the last move time is earlier in \<open>st'\<close>;
  \<open>steady st st'\<close>: moreover \<^verbatim>\<open>next_test_time\<close> has not changed.
\<close>

definition steady :: "state \<Rightarrow> state \<Rightarrow> bool" where
  "steady st st' \<longleftrightarrow>
     next_cmd_time (fst st) \<le> next_cmd_time (fst st') \<and>
     next_test_time (fst st') = next_test_time (fst st) \<and>
     last_move_time (snd st) \<le> last_move_time (snd st')"

definition later :: "state \<Rightarrow> state \<Rightarrow> bool" where
  "later st st' \<longleftrightarrow>
     next_cmd_time (fst st) \<le> next_cmd_time (fst st') \<and>
     next_test_time (fst st) \<le> next_test_time (fst st') \<and>
     last_move_time (snd st) \<le> last_move_time (snd st')"

text \<open>
  The simulated printer after construction, and what it does between connection and
  the end of a homing attempt: five seconds of moves, every stepper at 101.
\<close>

definition sim_start :: state where
  "sim_start = (init default_config, sim_world [0])"

definition sim_homing_move :: "world \<Rightarrow> world" where
  "sim_homing_move w = w\<lparr>last_move_time := last_move_time w + 5, mcu_position := (\<lambda>s. 101)\<rparr>"

definition sim_session :: "event list" where
  "sim_session =
     [Call (Op_printer_state ''connect''), Call Op_home_prepare, Motion sim_homing_move,
      Call Op_home_finalize]"

text \<open>The state after a self-test that succeeded, once the last move time has reached 200.\<close>

definition sim_retest :: state where
  "sim_retest =
     (case snd (test_sensor (sim_collab False 0) sim_start) of
        (b, w) \<Rightarrow> (b, w\<lparr>last_move_time := 200\<rparr>))"


section \<open>Properties\<close>

subsection \<open>Auxiliary facts: the command table, the position loop, the verification\<close>

lemma Commands_reset: "Commands (Some ''reset'') = Some 0.002200"
  and Commands_pin_up: "Commands (Some ''pin_up'') = Some 0.001500"
  and Commands_touch_mode: "Commands (Some ''touch_mode'') = Some 0.001200"
  and Commands_pin_down: "Commands (Some ''pin_down'') = Some 0.000700"
  and Commands_idle: "Commands None = Some 0.0"
  by (simp_all add: Commands_def)

lemma set_commanded_positions_frame:
  "last_move_time (set_commanded_positions xs w) = last_move_time w"
  "monotonic (set_commanded_positions xs w) = monotonic w"
  "est_queries (set_commanded_positions xs w) = est_queries w"
  "pwm_log (set_commanded_positions xs w) = pwm_log w"
  "endstop_log (set_commanded_positions xs w) = endstop_log w"
  "steppers (set_commanded_positions xs w) = steppers w"
  "mcu_position (set_commanded_positions xs w) = mcu_position w"
  by (induction xs w rule: set_commanded_positions.induct) simp_all

lemma set_commanded_positions_other:
  "s \<notin> fst ` set xs \<Longrightarrow>
   commanded_position (set_commanded_positions xs w) s = commanded_position w s"
  by (induction xs w rule: set_commanded_positions.induct) auto

lemma set_commanded_positions_zip:
  "s \<in> set ss \<Longrightarrow>
   commanded_position (set_commanded_positions (zip ss (map f ss)) w) s = f s"
proof (induction ss arbitrary: w)
  case Nil
  then show ?case by simp
next
  case (Cons a ss)
  show ?case
  proof (cases "s \<in> set ss")
    case True
    then show ?thesis using Cons.IH by simp
  next
    case False
    with Cons.prems have "s = a" by simp
    moreover from False have "s \<notin> fst ` set (zip ss (map f ss))"
      by (auto dest: set_zip_leftD)
    ultimately show ?thesis by (simp add: set_commanded_positions_other)
  qed
qed

lemma verify_state_cases:
  "verify_state c t0 t1 triggered msg (b, w) =
     (let w2 = snd (endstop_home_wait c t1
                 (endstop_home_start t0 ENDSTOP_SAMPLE_TIME ENDSTOP_SAMPLE_COUNT
                    ENDSTOP_REST_TIME (Some triggered) w))
      in if verify_times_out c t0 t1 triggered w
         then (Inl (EndstopError (''BLTouch failed to '' @ msg)), (b, w2))
         else (Inr (), (b, set_commanded_positions
                             (zip (steppers w) (map (commanded_position w) (steppers w))) w2)))"
  by (simp add: verify_state_def verify_times_out_def endstop_home_wait_def
      endstop_home_start_def Let_def split: prod.splits)


subsection \<open>Auxiliary facts: rounding to a double\<close>

lemma log2_nat_bounds: "1 \<le> n \<Longrightarrow> 2 ^ log2_nat n \<le> n \<and> n < 2 * 2 ^ log2_nat n"
proof (induction n rule: log2_nat.induct)
  case (1 n)
  show ?case
  proof (cases "n < 2")
    case True
    with "1.prems" have "n = 1" by simp
    then show ?thesis by (simp add: log2_nat.simps)
  next
    case False
    then have h: "1 \<le> n div 2" by simp
    from "1.IH" [OF False h]
    have a: "2 ^ log2_nat (n div 2) \<le> n div 2" and b: "n div 2 < 2 * 2 ^ log2_nat (n div 2)"
      by simp_all
    have eq: "log2_nat n = Suc (log2_nat (n div 2))"
      using False by (subst log2_nat.simps) simp
    from a have "2 * 2 ^ log2_nat (n div 2) \<le> n" by linarith
    moreover from b have "n < 2 * (2 * 2 ^ log2_nat (n div 2))" by linarith
    ultimately show ?thesis by (simp add: eq)
  qed
qed

lemma two_powi_neg_Suc: "(2::real) powi (- int (Suc l)) = 1 / (2 * 2 ^ l)"
  by (simp only: power_int_minus power_int_of_nat) (simp add: field_simps)

lemma two_powi_neg_Suc_plus: "(2::real) powi (- int (Suc l) + 1) = 1 / 2 ^ l"
proof -
  have "- int (Suc l) + 1 = - int l" by simp
  then show ?thesis by (simp only: power_int_minus power_int_of_nat) (simp add: field_simps)
qed

lemma two_powi_mono: "a \<le> b \<Longrightarrow> (2::real) powi a \<le> 2 powi b"
  by (rule power_int_increasing) simp_all

lemma two_powi_pos: "0 < (2::real) powi a"
  by simp

lemma two_powi_ulp: "(2::real) powi (e - 52) * 2 ^ 52 = 2 powi e"
  by (simp add: power_int_diff)

lemma two_powi_ulp_left: "(2::real) ^ 52 * 2 powi (e - 52) = 2 powi e"
  by (simp add: power_int_diff)

lemma two_powi_ulp_next: "(2::real) ^ 53 * 2 powi (e - 52) = 2 powi (e + 1)"
  by (simp add: power_int_diff power_int_add)

lemma two_powi_Suc: "(2::real) powi (e + 1) = 2 * 2 powi e"
  by (simp add: power_int_add)

lemma binary_exponent_bounds:
  assumes "0 < x"
  shows "2 powi binary_exponent x \<le> x \<and> x < 2 powi (binary_exponent x + 1)"
proof (cases "1 \<le> x")
  case True
  let ?n = "nat \<lfloor>x\<rfloor>"
  from True have n1: "1 \<le> ?n" by linarith
  note b = log2_nat_bounds [OF n1]
  have e: "binary_exponent x = int (log2_nat ?n)"
    using True by (simp add: binary_exponent_def)
  have cast: "real (2 ^ log2_nat ?n) = 2 ^ log2_nat ?n" by simp
  have nx: "real ?n \<le> x" "x < real ?n + 1" using True by linarith+
  have "real (2 ^ log2_nat ?n) \<le> real ?n" using b by (simp only: of_nat_le_iff)
  with nx cast have lo: "2 ^ log2_nat ?n \<le> x" by linarith
  have "Suc ?n \<le> 2 * 2 ^ log2_nat ?n" using b by simp
  then have "real (Suc ?n) \<le> real (2 * 2 ^ log2_nat ?n)" by (simp only: of_nat_le_iff)
  then have "real ?n + 1 \<le> 2 * 2 ^ log2_nat ?n" by simp
  with nx have hi: "x < 2 * 2 ^ log2_nat ?n" by linarith
  have "2 powi (int (log2_nat ?n) + 1) = (2::real) * 2 ^ log2_nat ?n"
    by (simp add: power_int_add)
  with lo hi show ?thesis by (simp add: e)
next
  case False
  let ?y = "1 / x"
  let ?n = "nat (\<lceil>?y\<rceil> - 1)"
  from False assms have y1: "1 < ?y" by simp
  then have c2: "2 \<le> \<lceil>?y\<rceil>" by linarith
  then have n1: "1 \<le> ?n" by linarith
  note b = log2_nat_bounds [OF n1]
  have e: "binary_exponent x = - int (Suc (log2_nat ?n))"
    using False by (simp add: binary_exponent_def)
  have n_lt: "real ?n < ?y" using c2 by linarith
  have y_le: "?y \<le> real ?n + 1" using c2 by linarith
  have cast: "real (2 ^ log2_nat ?n) = 2 ^ log2_nat ?n" by simp
  have "real (2 ^ log2_nat ?n) \<le> real ?n" using b by (simp only: of_nat_le_iff)
  with n_lt cast have lo: "2 ^ log2_nat ?n < ?y" by linarith
  have "Suc ?n \<le> 2 * 2 ^ log2_nat ?n" using b by simp
  then have "real (Suc ?n) \<le> real (2 * 2 ^ log2_nat ?n)" by (simp only: of_nat_le_iff)
  then have "real ?n + 1 \<le> 2 * 2 ^ log2_nat ?n" by simp
  with y_le have hi: "?y \<le> 2 * 2 ^ log2_nat ?n" by linarith
  let ?p = "(2::real) ^ log2_nat ?n"
  have p: "0 < ?p" by simp
  from lo assms p have x_lt: "x < 1 / ?p"
    by (simp add: field_simps)
  from hi assms p have x_ge: "1 / (2 * ?p) \<le> x"
    by (simp add: field_simps)
  show ?thesis
    unfolding e two_powi_neg_Suc two_powi_neg_Suc_plus using x_lt x_ge by simp
qed

lemma binary_exponent_unique:
  assumes "0 < x" and lo: "2 powi e \<le> x" and hi: "x < 2 powi (e + 1)"
  shows "binary_exponent x = e"
proof -
  let ?b = "binary_exponent x"
  from binary_exponent_bounds [OF assms(1)]
  have blo: "2 powi ?b \<le> x" and bhi: "x < 2 powi (?b + 1)" by simp_all
  have "\<not> ?b < e"
  proof
    assume "?b < e"
    then have "(2::real) powi (?b + 1) \<le> 2 powi e" by (intro two_powi_mono) simp
    with lo bhi show False by linarith
  qed
  moreover have "\<not> e < ?b"
  proof
    assume "e < ?b"
    then have "(2::real) powi (e + 1) \<le> 2 powi ?b" by (intro two_powi_mono) simp
    with hi blo show False by linarith
  qed
  ultimately show ?thesis by simp
qed

lemma round_half_even_error: "\<bar>real_of_int (round_half_even y) - y\<bar> \<le> 1 / 2"
  unfolding round_half_even_def Let_def by (simp split: if_splits; linarith)

lemma round_half_even_le: "y \<le> real_of_int n \<Longrightarrow> round_half_even y \<le> n"
  unfolding round_half_even_def Let_def by (simp split: if_splits; linarith)

lemma round_half_even_ge: "real_of_int n \<le> y \<Longrightarrow> n \<le> round_half_even y"
  unfolding round_half_even_def Let_def by (simp split: if_splits; linarith)

lemma binary64_round_pos:
  "0 < x \<Longrightarrow>
   binary64_round x =
     real_of_int (round_half_even (x / 2 powi (max (binary_exponent x) (- 1022) - 52)))
       * 2 powi (max (binary_exponent x) (- 1022) - 52)"
  by (simp add: binary64_round_def Let_def)

lemma binary64_round_eval:
  assumes "0 < x" "2 powi e \<le> x" "x < 2 powi (e + 1)" "- 1022 \<le> e"
    and "round_half_even (x / 2 powi (e - 52)) = n"
  shows "binary64_round x = real_of_int n * 2 powi (e - 52)"
  using assms binary_exponent_unique [OF assms(1,2,3)]
  by (simp add: binary64_round_pos max_def)

lemma SIGNAL_PERIOD_double_eq:
  "SIGNAL_PERIOD_double = 7378697629483821 / 288230376151711744"
proof -
  have "binary64_round 0.025600 = real_of_int 7378697629483821 * 2 powi (- 6 - 52)"
    by (rule binary64_round_eval) (simp_all add: power_int_minus round_half_even_def)
  then show ?thesis by (simp add: SIGNAL_PERIOD_double_def power_int_minus)
qed

lemma MIN_CMD_TIME_double_eq:
  "MIN_CMD_TIME_double = 7378697629483821 / 72057594037927936"
proof -
  have "binary64_round (4 * SIGNAL_PERIOD_double)
      = real_of_int 7378697629483821 * 2 powi (- 4 - 52)"
    by (rule binary64_round_eval)
      (simp_all add: SIGNAL_PERIOD_double_eq power_int_minus round_half_even_def)
  then show ?thesis by (simp add: MIN_CMD_TIME_double_def power_int_minus)
qed

lemma MIN_CMD_TIME_double_four: "MIN_CMD_TIME_double = 4 * SIGNAL_PERIOD_double"
  by (simp add: MIN_CMD_TIME_double_eq SIGNAL_PERIOD_double_eq)

lemma binary64_round_ge_double:
  assumes m: "2 ^ 52 \<le> m" "m < 2 ^ 53" and e: "- 1022 \<le> e"
    and d: "d = real_of_int m * 2 powi (e - 52)" and dx: "d \<le> x"
  shows "d \<le> binary64_round x"
proof -
  let ?u = "(2::real) powi (e - 52)"
  have u: "0 < ?u" by simp
  have "(2::real) ^ 52 \<le> real_of_int m" using m(1) by (metis of_int_le_iff of_int_numeral of_int_power)
  then have "2 ^ 52 * ?u \<le> real_of_int m * ?u" using u by (simp only: mult_le_cancel_right_pos)
  then have dlo: "2 powi e \<le> d" by (simp only: two_powi_ulp_left d)
  have "real_of_int m < 2 ^ 53" using m(2) by (metis of_int_less_iff of_int_numeral of_int_power)
  then have "real_of_int m * ?u < 2 ^ 53 * ?u" using u by (simp only: mult_less_cancel_right_pos)
  then have dhi: "d < 2 powi (e + 1)" by (simp only: two_powi_ulp_next d)
  have dpos: "0 < d" using dlo two_powi_pos [of e] by linarith
  with dx have x: "0 < x" by linarith
  let ?b = "binary_exponent x"
  from binary_exponent_bounds [OF x]
  have blo: "2 powi ?b \<le> x" and bhi: "x < 2 powi (?b + 1)" by simp_all
  have eb: "e \<le> ?b"
  proof (rule ccontr)
    assume "\<not> e \<le> ?b"
    then have "(2::real) powi (?b + 1) \<le> 2 powi e" by (intro two_powi_mono) simp
    with bhi dlo dx show False by linarith
  qed
  let ?v = "(2::real) powi (?b - 52)"
  have v: "0 < ?v" by simp
  have "max ?b (- 1022) = ?b" using eb e by simp
  then have fl: "binary64_round x = real_of_int (round_half_even (x / ?v)) * ?v"
    by (simp only: binary64_round_pos [OF x])
  show ?thesis
  proof (cases "?b = e")
    case True
    have "real_of_int m \<le> x / ?v"
      using dx v True by (simp add: d pos_le_divide_eq)
    then have "m \<le> round_half_even (x / ?v)" by (rule round_half_even_ge)
    then have "real_of_int m * ?v \<le> real_of_int (round_half_even (x / ?v)) * ?v"
      using v by (simp only: mult_le_cancel_right_pos of_int_le_iff)
    then show ?thesis using True by (simp add: fl d)
  next
    case False
    with eb have lt: "e + 1 \<le> ?b" by simp
    have "real_of_int (2 ^ 52) * ?v = 2 powi ?b"
      using two_powi_ulp_left [of ?b] by simp
    with blo have "real_of_int (2 ^ 52) * ?v \<le> x" by simp
    then have "real_of_int (2 ^ 52) \<le> x / ?v" using v by (simp only: pos_le_divide_eq)
    then have "2 ^ 52 \<le> round_half_even (x / ?v)" by (rule round_half_even_ge)
    then have "real_of_int (2 ^ 52) * ?v \<le> real_of_int (round_half_even (x / ?v)) * ?v"
      using v by (simp only: mult_le_cancel_right_pos of_int_le_iff)
    moreover have "real_of_int (2 ^ 52) * ?v = 2 powi ?b"
      using two_powi_ulp_left [of ?b] by simp
    ultimately have "2 powi ?b \<le> binary64_round x" by (simp only: fl)
    moreover have "(2::real) powi (e + 1) \<le> 2 powi ?b" using lt by (rule two_powi_mono)
    ultimately show ?thesis using dhi by linarith
  qed
qed

lemma binary64_round_error:
  assumes "2 powi (- 1022) \<le> x"
  shows "\<bar>binary64_round x - x\<bar> \<le> x / 2 ^ 53"
proof -
  have x: "0 < x" using assms two_powi_pos [of "- 1022"] by linarith
  let ?b = "binary_exponent x"
  from binary_exponent_bounds [OF x]
  have blo: "2 powi ?b \<le> x" and bhi: "x < 2 powi (?b + 1)" by simp_all
  have eb: "- 1022 \<le> ?b"
  proof (rule ccontr)
    assume "\<not> - 1022 \<le> ?b"
    then have "(2::real) powi (?b + 1) \<le> 2 powi (- 1022)" by (intro two_powi_mono) simp
    with bhi assms show False by linarith
  qed
  let ?v = "(2::real) powi (?b - 52)"
  have v: "0 < ?v" by simp
  have "max ?b (- 1022) = ?b" using eb by simp
  then have fl: "binary64_round x = real_of_int (round_half_even (x / ?v)) * ?v"
    by (simp only: binary64_round_pos [OF x])
  have "\<bar>real_of_int (round_half_even (x / ?v)) - x / ?v\<bar> \<le> 1 / 2"
    by (rule round_half_even_error)
  then have "\<bar>real_of_int (round_half_even (x / ?v)) - x / ?v\<bar> * ?v \<le> 1 / 2 * ?v"
    using v by (simp only: mult_le_cancel_right_pos)
  moreover have "\<bar>real_of_int (round_half_even (x / ?v)) - x / ?v\<bar> * ?v
      = \<bar>real_of_int (round_half_even (x / ?v)) * ?v - x\<bar>"
  proof -
    have "\<bar>real_of_int (round_half_even (x / ?v)) - x / ?v\<bar> * ?v
        = \<bar>(real_of_int (round_half_even (x / ?v)) - x / ?v) * ?v\<bar>"
      using v by (simp add: abs_mult)
    also have "(real_of_int (round_half_even (x / ?v)) - x / ?v) * ?v
        = real_of_int (round_half_even (x / ?v)) * ?v - x"
      using v by (simp add: left_diff_distrib)
    finally show ?thesis .
  qed
  ultimately have err: "\<bar>binary64_round x - x\<bar> \<le> ?v / 2" by (simp add: fl)
  have "?v * 2 ^ 52 \<le> x" using blo two_powi_ulp [of ?b] by simp
  then have "?v / 2 \<le> x / 2 ^ 53" by (simp add: field_simps)
  with err show ?thesis by linarith
qed

lemma binary64_round_le_int:
  assumes x: "0 < x" and xj: "x \<le> real_of_int j" and j: "j < 2 ^ 53"
  shows "binary64_round x \<le> real_of_int j"
proof -
  let ?b = "binary_exponent x"
  from binary_exponent_bounds [OF x]
  have blo: "2 powi ?b \<le> x" and bhi: "x < 2 powi (?b + 1)" by simp_all
  have "real_of_int j < 2 ^ 53" using j by (metis of_int_less_iff of_int_numeral of_int_power)
  with xj blo have "(2::real) powi ?b < 2 powi 53" by simp
  then have b53: "?b < 53"
    by (metis two_powi_mono not_le)
  let ?E = "max ?b (- 1022)"
  have E: "?E \<le> 52" using b53 by simp
  let ?v = "(2::real) powi (?E - 52)"
  have v: "0 < ?v" by simp
  let ?k = "nat (52 - ?E)"
  have vk: "?v * 2 ^ ?k = 1"
  proof -
    have "?E - 52 = - int ?k" using E by simp
    then have "?v = 2 powi (- int ?k)" by simp
    then show ?thesis by (simp only: power_int_minus power_int_of_nat) simp
  qed
  have fl: "binary64_round x = real_of_int (round_half_even (x / ?v)) * ?v"
    by (simp only: binary64_round_pos [OF x])
  have jv: "real_of_int j / ?v = real_of_int (j * 2 ^ ?k)"
  proof -
    have "real_of_int j / ?v = real_of_int j * (?v * 2 ^ ?k) / ?v" by (simp only: vk mult_1_right)
    also have "\<dots> = real_of_int j * 2 ^ ?k" using v by simp
    finally show ?thesis by simp
  qed
  have "x / ?v \<le> real_of_int j / ?v" using xj v by (simp add: divide_right_mono)
  then have "x / ?v \<le> real_of_int (j * 2 ^ ?k)" by (simp only: jv)
  then have "round_half_even (x / ?v) \<le> j * 2 ^ ?k" by (rule round_half_even_le)
  then have "real_of_int (round_half_even (x / ?v)) \<le> real_of_int (j * 2 ^ ?k)"
    by (simp only: of_int_le_iff)
  then have "real_of_int (round_half_even (x / ?v)) * ?v \<le> real_of_int (j * 2 ^ ?k) * ?v"
    using v by (simp only: mult_le_cancel_right_pos)
  moreover have "real_of_int (j * 2 ^ ?k) * ?v = real_of_int j"
  proof -
    have "real_of_int (j * 2 ^ ?k) * ?v = real_of_int j * (?v * 2 ^ ?k)" by simp
    then show ?thesis by (simp only: vk mult_1_right)
  qed
  ultimately show ?thesis by (simp only: fl)
qed

lemma SIGNAL_PERIOD_double_pos: "0 < SIGNAL_PERIOD_double"
  by (simp add: SIGNAL_PERIOD_double_eq)

lemma two_powi_min_le_four: "(2::real) powi (- 1022) \<le> 4"
proof -
  have "(2::real) powi (- 1022) \<le> 2 powi 2" by (rule two_powi_mono) simp
  then show ?thesis by simp
qed

lemma two_powi_min_le_MIN: "(2::real) powi (- 1022) \<le> MIN_CMD_TIME_double"
proof -
  have "(2::real) powi (- 1022) \<le> 2 powi (- 4)" by (rule two_powi_mono) simp
  also have "\<dots> \<le> MIN_CMD_TIME_double" by (simp add: MIN_CMD_TIME_double_eq power_int_minus)
  finally show ?thesis .
qed

subsection \<open>Construction\<close>

lemma pin_move_time_init:
  "pin_move_time (init cfg) =
     binary64_round
       (real_of_int \<lceil>binary64_round
           (max (getdefault (cfg_pin_move_time cfg) (binary64_round 0.200))
              MIN_CMD_TIME_double / SIGNAL_PERIOD_double)\<rceil>
          * SIGNAL_PERIOD_double)"
  by (simp add: init_def Let_def)

text \<open>
  C5, as the code has it. Let the maximum of the configured \<^verbatim>\<open>pin_move_time\<close> (the
  double of 0.200 when absent) and \<^verbatim>\<open>MIN_CMD_TIME\<close> be such that its quotient by the
  signal period does not overflow. Then the attribute \<open>pin_move_time\<close> computed at
  construction is the double nearest to \<open>k\<close> signal periods for a whole number
  \<open>k \<ge> 4\<close>; it is at least \<^verbatim>\<open>MIN_CMD_TIME\<close>; it is at least that maximum but for
  the rounding of the quotient and of the product (a factor \<open>1 - 1 / 2 ^ 52\<close>); and
  it exceeds no multiple \<open>j\<close> of the signal period that is at least that maximum by
  more than the rounding of the product (a factor \<open>1 + 1 / 2 ^ 53\<close>, for
  \<open>j < 2 ^ 53\<close>).
\<close>

theorem pin_move_time_rounded_multiple:
  assumes finite: "binary64_round
      (max (getdefault (cfg_pin_move_time cfg) (binary64_round 0.200)) MIN_CMD_TIME_double
         / SIGNAL_PERIOD_double) < 2 ^ 1024"
  shows "(\<exists>k::int. 4 \<le> k \<and>
            pin_move_time (init cfg) = binary64_round (real_of_int k * SIGNAL_PERIOD_double))
    \<and> MIN_CMD_TIME_double \<le> pin_move_time (init cfg)
    \<and> max (getdefault (cfg_pin_move_time cfg) (binary64_round 0.200)) MIN_CMD_TIME_double
          * (1 - 1 / 2 ^ 52) \<le> pin_move_time (init cfg)
    \<and> (\<forall>j::int. j < 2 ^ 53 \<and>
           max (getdefault (cfg_pin_move_time cfg) (binary64_round 0.200)) MIN_CMD_TIME_double
             \<le> real_of_int j * SIGNAL_PERIOD_double
         \<longrightarrow> pin_move_time (init cfg)
               \<le> real_of_int j * SIGNAL_PERIOD_double * (1 + 1 / 2 ^ 53))"
proof -
  define t where "t = pin_move_time (init cfg)"
  define P where "P = SIGNAL_PERIOD_double"
  define pmt where
    "pmt = max (getdefault (cfg_pin_move_time cfg) (binary64_round 0.200)) MIN_CMD_TIME_double"
  define x where "x = pmt / P"
  define q where "q = binary64_round x"
  define k where "k = \<lceil>q\<rceil>"
  define eps :: real where "eps = 1 / 2 ^ 53"
  have P: "0 < P" by (simp add: P_def SIGNAL_PERIOD_double_pos)
  have MIN: "MIN_CMD_TIME_double = 4 * P" by (simp add: P_def MIN_CMD_TIME_double_four)
  have pmt: "4 * P \<le> pmt" by (simp add: pmt_def MIN)
  have t: "t = binary64_round (real_of_int k * P)"
    unfolding t_def pin_move_time_init k_def q_def x_def pmt_def P_def ..
  have x4: "4 \<le> x" using pmt P by (simp add: x_def pos_le_divide_eq)
  have xP: "x * P = pmt" using P by (simp add: x_def)
  \<comment> \<open>the quotient is at least 4\<close>
  have "(4::real) = real_of_int (2 ^ 52) * 2 powi (2 - 52)"
    by (simp add: power_int_minus)
  from binary64_round_ge_double [OF _ _ _ this x4]
  have q4: "4 \<le> q" by (simp add: q_def)
  then have k4: "4 \<le> k" by (simp add: k_def le_ceiling_iff)
  have kq: "q \<le> real_of_int k" by (simp add: k_def)
  \<comment> \<open>the product is at least the minimum\<close>
  have "4 * P \<le> real_of_int k * P" using k4 P by simp
  then have kP: "MIN_CMD_TIME_double \<le> real_of_int k * P" by (simp only: MIN)
  have "MIN_CMD_TIME_double = real_of_int 7378697629483821 * 2 powi (- 4 - 52)"
    by (simp add: MIN_CMD_TIME_double_eq power_int_minus)
  from binary64_round_ge_double [OF _ _ _ this kP]
  have min_t: "MIN_CMD_TIME_double \<le> t" by (simp add: t)
  \<comment> \<open>rounding errors\<close>
  have "2 powi (- 1022) \<le> x" using two_powi_min_le_four x4 by linarith
  from binary64_round_error [OF this]
  have qerr: "\<bar>q - x\<bar> \<le> x * eps" by (simp add: q_def eps_def)
  have "2 powi (- 1022) \<le> real_of_int k * P" using two_powi_min_le_MIN kP by linarith
  from binary64_round_error [OF this]
  have terr: "\<bar>t - real_of_int k * P\<bar> \<le> real_of_int k * P * eps" by (simp add: t eps_def)
  have eps: "0 < eps" "eps < 1" by (simp_all add: eps_def)
  \<comment> \<open>lower bound\<close>
  have "x * (1 - eps) \<le> q" using qerr by (simp add: algebra_simps abs_le_iff)
  with kq have "x * (1 - eps) \<le> real_of_int k" by linarith
  then have "x * (1 - eps) * P \<le> real_of_int k * P" using P by (simp only: mult_le_cancel_right_pos)
  moreover have "x * (1 - eps) * P = x * P * (1 - eps)" by (simp add: algebra_simps)
  ultimately have l1: "pmt * (1 - eps) \<le> real_of_int k * P"
    by (simp only: xP)
  have "real_of_int k * P * (1 - eps) \<le> t" using terr by (simp add: algebra_simps abs_le_iff)
  moreover have "pmt * (1 - eps) * (1 - eps) \<le> real_of_int k * P * (1 - eps)"
    using l1 eps by (simp only: mult_le_cancel_right_pos diff_gt_0_iff_gt)
  moreover have "pmt * (1 - 2 * eps) \<le> pmt * (1 - eps) * (1 - eps)"
  proof -
    have "0 \<le> pmt" using pmt P by linarith
    moreover have "1 - 2 * eps \<le> (1 - eps) * (1 - eps)"
    proof -
      have "(1 - eps) * (1 - eps) = 1 - 2 * eps + eps * eps" by (simp add: algebra_simps)
      moreover have "0 \<le> eps * eps" by simp
      ultimately show ?thesis by linarith
    qed
    ultimately have "pmt * (1 - 2 * eps) \<le> pmt * ((1 - eps) * (1 - eps))"
      by (rule mult_left_mono [rotated])
    then show ?thesis by (simp add: mult.assoc)
  qed
  ultimately have low: "pmt * (1 - 2 * eps) \<le> t" by linarith
  have "2 * eps = 1 / 2 ^ 52" by (simp add: eps_def)
  with low have low': "pmt * (1 - 1 / 2 ^ 52) \<le> t" by simp
  \<comment> \<open>no more than the least multiple, rounded\<close>
  have least: "t \<le> real_of_int j * P * (1 + eps)"
    if j: "j < 2 ^ 53" and pj: "pmt \<le> real_of_int j * P" for j :: int
  proof -
    have xj: "x \<le> real_of_int j" using pj P by (simp add: x_def pos_divide_le_eq)
    have "0 < x" using x4 by linarith
    from binary64_round_le_int [OF this xj j] have "q \<le> real_of_int j" by (simp add: q_def)
    then have "k \<le> j" by (simp add: k_def ceiling_le_iff)
    then have kj: "real_of_int k * P \<le> real_of_int j * P" using P by simp
    have "0 \<le> 1 + eps" using eps by simp
    with kj have "real_of_int k * P * (1 + eps) \<le> real_of_int j * P * (1 + eps)"
      by (rule mult_right_mono)
    moreover have "t \<le> real_of_int k * P * (1 + eps)"
      using terr by (simp add: algebra_simps abs_le_iff)
    ultimately show ?thesis by linarith
  qed
  from k4 t have ex: "\<exists>k::int. 4 \<le> k \<and> t = binary64_round (real_of_int k * P)" by blast
  show ?thesis
    using ex min_t low' least
    unfolding P_def pmt_def eps_def t_def by blast
qed

text \<open>The default: 0.200 is read as a double, the quotient rounds to 7.8125, and 8 periods are a double.\<close>

lemma default_double: "binary64_round 0.200 = 3602879701896397 / 18014398509481984"
proof -
  have "binary64_round 0.200 = real_of_int 7205759403792794 * 2 powi (- 3 - 52)"
    by (rule binary64_round_eval) (simp_all add: power_int_minus round_half_even_def)
  then show ?thesis by (simp add: power_int_minus)
qed

lemma quotient_default:
  "binary64_round (3602879701896397 / 18014398509481984 / SIGNAL_PERIOD_double) = 125 / 16"
proof -
  have "binary64_round (3602879701896397 / 18014398509481984 / SIGNAL_PERIOD_double)
      = real_of_int 8796093022208000 * 2 powi (2 - 52)"
    by (rule binary64_round_eval)
      (simp_all add: SIGNAL_PERIOD_double_eq power_int_minus round_half_even_def)
  then show ?thesis by (simp add: power_int_minus)
qed

lemma product_default:
  "binary64_round (8 * SIGNAL_PERIOD_double) = 7378697629483821 / 36028797018963968"
proof -
  have "binary64_round (8 * SIGNAL_PERIOD_double)
      = real_of_int 7378697629483821 * 2 powi (- 3 - 52)"
    by (rule binary64_round_eval)
      (simp_all add: SIGNAL_PERIOD_double_eq power_int_minus round_half_even_def)
  then show ?thesis by (simp add: power_int_minus)
qed

lemma pmt_default:
  "max (getdefault (cfg_pin_move_time default_config) (binary64_round 0.200))
     MIN_CMD_TIME_double = 3602879701896397 / 18014398509481984"
  unfolding default_double MIN_CMD_TIME_double_eq
  by (simp add: default_config_def getdefault_def)

lemma pin_move_time_default:
  "pin_move_time (init default_config) = 7378697629483821 / 36028797018963968"
  unfolding pin_move_time_init pmt_default quotient_default
  by (simp add: product_default)

lemma init_default_config:
  "init default_config =
     \<lparr> position_endstop = 2.5, next_cmd_time = 0, next_test_time = 0,
       pin_up_touch_triggered = True, pin_up_triggered = False, start_mcu_pos = [],
       pin_move_time = 7378697629483821 / 36028797018963968 \<rparr>"
proof -
  have "init default_config =
     \<lparr> position_endstop = 2.5, next_cmd_time = 0, next_test_time = 0,
       pin_up_touch_triggered = True, pin_up_triggered = False, start_mcu_pos = [],
       pin_move_time = pin_move_time (init default_config) \<rparr>"
    by (simp add: init_def Let_def default_config_def getdefault_def)
  then show ?thesis by (simp only: pin_move_time_default)
qed

text \<open>
  With the default the quotient 7.8125 is far below \<open>2 ^ 1024\<close>; the attribute is the
  double of 8 periods, 0.2048 s.
\<close>

theorem pin_move_time_rounded_multiple_witness:
  "pin_move_time (init default_config) = 7378697629483821 / 36028797018963968
   \<and> MIN_CMD_TIME_double \<le> pin_move_time (init default_config)
   \<and> pin_move_time (init default_config)
       \<le> real_of_int 8 * SIGNAL_PERIOD_double * (1 + 1 / 2 ^ 53)"
proof -
  have finite: "binary64_round
      (max (getdefault (cfg_pin_move_time default_config) (binary64_round 0.200))
         MIN_CMD_TIME_double / SIGNAL_PERIOD_double) < 2 ^ 1024"
    unfolding pmt_default quotient_default by simp
  have j: "(8::int) < 2 ^ 53" by simp
  have bound: "max (getdefault (cfg_pin_move_time default_config) (binary64_round 0.200))
      MIN_CMD_TIME_double \<le> real_of_int 8 * SIGNAL_PERIOD_double"
    unfolding pmt_default by (simp add: SIGNAL_PERIOD_double_eq)
  from pin_move_time_rounded_multiple [OF finite]
  have "MIN_CMD_TIME_double \<le> pin_move_time (init default_config)"
    and "\<forall>j::int. j < 2 ^ 53 \<and>
           max (getdefault (cfg_pin_move_time default_config) (binary64_round 0.200))
             MIN_CMD_TIME_double \<le> real_of_int j * SIGNAL_PERIOD_double
         \<longrightarrow> pin_move_time (init default_config)
               \<le> real_of_int j * SIGNAL_PERIOD_double * (1 + 1 / 2 ^ 53)"
    by blast+
  with j bound pin_move_time_default show ?thesis by blast
qed

text \<open>The value 0.48640000000000005, one unit in the last place above 19 periods.\<close>

lemma configured_double:
  "binary64_round 0.48640000000000005 = 4381101717506019 / 9007199254740992"
proof -
  have "binary64_round 0.48640000000000005 = real_of_int 8762203435012038 * 2 powi (- 2 - 52)"
    by (rule binary64_round_eval) (simp_all add: power_int_minus round_half_even_def)
  then show ?thesis by (simp add: power_int_minus)
qed

lemma quotient_configured:
  "binary64_round (4381101717506019 / 9007199254740992 / SIGNAL_PERIOD_double) = 19"
proof -
  have "binary64_round (4381101717506019 / 9007199254740992 / SIGNAL_PERIOD_double)
      = real_of_int 5348024557502464 * 2 powi (4 - 52)"
    by (rule binary64_round_eval)
      (simp_all add: SIGNAL_PERIOD_double_eq power_int_minus round_half_even_def)
  then show ?thesis by (simp add: power_int_minus)
qed

lemma product_configured:
  "binary64_round (19 * SIGNAL_PERIOD_double) = 8762203435012037 / 18014398509481984"
proof -
  have "binary64_round (19 * SIGNAL_PERIOD_double)
      = real_of_int 8762203435012037 * 2 powi (- 2 - 52)"
    by (rule binary64_round_eval)
      (simp_all add: SIGNAL_PERIOD_double_eq power_int_minus round_half_even_def)
  then show ?thesis by (simp add: power_int_minus)
qed

lemma pmt_configured:
  "max (getdefault
          (cfg_pin_move_time
             (default_config\<lparr>cfg_pin_move_time := Some (4381101717506019 / 9007199254740992)\<rparr>))
          (binary64_round 0.200))
     MIN_CMD_TIME_double = 4381101717506019 / 9007199254740992"
  unfolding MIN_CMD_TIME_double_eq by (simp add: getdefault_def)

text \<open>
  C5 as stated fails at the configured value 0.48640000000000005, which is read as
  the double 4381101717506019 / 2 ^ 53, one unit in the last place above 19 signal
  periods. The quotient rounds to 19.0, so \<^verbatim>\<open>math.ceil\<close> gives 19 and not 20, and
  the product rounds to 8762203435012037 / 2 ^ 54: the attribute is less than the
  configured value, and it lies strictly between 18 and 19 times the signal period
  (the double and the decimal 0.0256 alike), so it is no whole multiple of it.
\<close>

theorem pin_move_time_below_configured_counterexample:
  "binary64_round 0.48640000000000005 = 4381101717506019 / 9007199254740992
   \<and> pin_move_time
        (init (default_config\<lparr>cfg_pin_move_time := Some (4381101717506019 / 9007199254740992)\<rparr>))
      = 8762203435012037 / 18014398509481984
   \<and> (8762203435012037 / 18014398509481984 :: real) < 4381101717506019 / 9007199254740992
   \<and> 18 * SIGNAL_PERIOD_double < 8762203435012037 / 18014398509481984
   \<and> 8762203435012037 / 18014398509481984 < 19 * SIGNAL_PERIOD_double
   \<and> 18 * SIGNAL_PERIOD < 8762203435012037 / 18014398509481984
   \<and> 8762203435012037 / 18014398509481984 < 19 * SIGNAL_PERIOD"
proof -
  have "pin_move_time
        (init (default_config\<lparr>cfg_pin_move_time := Some (4381101717506019 / 9007199254740992)\<rparr>))
      = 8762203435012037 / 18014398509481984"
    unfolding pin_move_time_init pmt_configured quotient_configured
    by (simp add: product_configured)
  then show ?thesis
    unfolding configured_double SIGNAL_PERIOD_double_eq SIGNAL_PERIOD_def by simp
qed

subsection \<open>Verification\<close>

text \<open>
  C1, as the code has it. When the wait of \<^verbatim>\<open>verify_state\<close> does not time out, the
  call returns, leaves the wrapper's attributes alone, and every stepper of the endstop
  has the commanded position it had when the call began. When the wait times out, the
  call raises \<^verbatim>\<open>EndstopError("BLTouch failed to <msg>")\<close>; the handler raises before
  the loop that restores the positions.
\<close>

theorem verify_state_restores_on_success:
  "(\<not> verify_times_out c t0 t1 triggered w \<longrightarrow>
      fst (verify_state c t0 t1 triggered msg (b, w)) = Inr () \<and>
      fst (snd (verify_state c t0 t1 triggered msg (b, w))) = b \<and>
      (\<forall>s \<in> set (steppers w).
         commanded_position (snd (snd (verify_state c t0 t1 triggered msg (b, w)))) s
           = commanded_position w s)) \<and>
   (verify_times_out c t0 t1 triggered w \<longrightarrow>
      fst (verify_state c t0 t1 triggered msg (b, w))
        = Inl (EndstopError (''BLTouch failed to '' @ msg)))"
  by (simp add: verify_state_cases Let_def set_commanded_positions_zip)

text \<open>
  Two runs on the simulated printer, whose wait moves every commanded position from 5
  to 6: one where the state is confirmed, and stepper 1 is back at 5; one where the
  wait times out, and the error is raised.
\<close>

theorem verify_state_restores_on_success_witness:
  "fst (verify_state (sim_collab False 1) 11 12 False ''raise probe''
          (init default_config, sim_world [0, 1])) = Inr ()
   \<and> commanded_position (snd (snd (verify_state (sim_collab False 1) 11 12 False
          ''raise probe'' (init default_config, sim_world [0, 1])))) 1 = 5
   \<and> fst (verify_state (sim_collab True 1) 11 12 False ''raise probe''
          (init default_config, sim_world [0, 1]))
       = Inl (EndstopError ''BLTouch failed to raise probe'')"
  using
    verify_state_restores_on_success [of "sim_collab False 1" 11 12 False "sim_world [0, 1]"
      "''raise probe''" "init default_config"]
    verify_state_restores_on_success [of "sim_collab True 1" 11 12 False "sim_world [0, 1]"
      "''raise probe''" "init default_config"]
  by (simp add: verify_times_out_def sim_collab_def sim_world_def endstop_home_start_def)

text \<open>
  C1 as stated fails when the window times out: the simulated wait has moved the
  commanded position of stepper 0 from 5 to 6, \<^verbatim>\<open>verify_state\<close> raises, and the
  position is still 6.
\<close>

theorem verify_state_timeout_counterexample:
  "fst (verify_state (sim_collab True 1) 11 12 False ''raise probe''
          (init default_config, sim_world [0]))
     = Inl (EndstopError ''BLTouch failed to raise probe'')
   \<and> commanded_position (sim_world [0]) 0 = 5
   \<and> commanded_position (snd (snd (verify_state (sim_collab True 1) 11 12 False
          ''raise probe'' (init default_config, sim_world [0])))) 0 = 6"
  by (simp add: verify_state_cases Let_def verify_times_out_def sim_collab_def sim_world_def
      endstop_home_wait_def endstop_home_start_def)

subsection \<open>The self-test, switched off\<close>

text \<open>
  C6. When the configuration has \<^verbatim>\<open>triggered_on_pin_up_touch_mode\<close> false, or
  \<^verbatim>\<open>triggered_on_pin_up\<close> true, every call of \<^verbatim>\<open>test_sensor\<close> on a wrapper with the
  flags of that configuration returns at once: no command is sent, the endstop is not
  called, and no attribute changes (the whole state is the one before the call),
  whatever the times are.
\<close>

theorem test_sensor_noop:
  "triggered_on_pin_up_touch_mode cfg = Some False \<or> triggered_on_pin_up cfg = Some True \<Longrightarrow>
   pin_up_touch_triggered b = pin_up_touch_triggered (init cfg) \<Longrightarrow>
   pin_up_triggered b = pin_up_triggered (init cfg) \<Longrightarrow>
   test_sensor c (b, w) = (Inr (), (b, w))"
  by (auto simp: test_sensor_def init_def Let_def getdefault_def)

theorem test_sensor_noop_witness:
  "test_sensor (sim_collab False 0)
     (init (default_config\<lparr>triggered_on_pin_up_touch_mode := Some False\<rparr>), sim_world [0])
   = (Inr (), (init (default_config\<lparr>triggered_on_pin_up_touch_mode := Some False\<rparr>),
               sim_world [0]))"
  using test_sensor_noop [of "default_config\<lparr>triggered_on_pin_up_touch_mode := Some False\<rparr>"
      "init (default_config\<lparr>triggered_on_pin_up_touch_mode := Some False\<rparr>)"
      "sim_collab False 0" "sim_world [0]"]
  by simp

subsection \<open>Arming the endstop for a homing move\<close>

text \<open>
  C9. \<^verbatim>\<open>home_start(print_time, sample_time, sample_count, rest_time)\<close> calls the
  endstop's \<^verbatim>\<open>home_start\<close> once, with the rest time \<open>min rest_time 0.001\<close> and the
  other three arguments as given, and does nothing else.
\<close>

theorem home_start_clamps_rest_time:
  "home_start print_time sample_time sample_count rest_time (b, w) =
     (b, w\<lparr>endstop_log := endstop_log w @
              [Home_start print_time sample_time sample_count
                 (min rest_time (1 / 1000)) None]\<rparr>)"
  by (simp add: home_start_def endstop_home_start_def ENDSTOP_REST_TIME_def)

subsection \<open>Auxiliary facts: the methods, run symbolically\<close>

lemma send_cmd_eq:
  "send_cmd c cmd duration (b, w) =
     (case Commands cmd of
        None \<Rightarrow> (Inl KeyError, (b, w))
      | Some width \<Rightarrow>
          (Inr (next_time c (next_cmd_time b) duration),
           (b\<lparr>next_cmd_time := next_time c (next_cmd_time b) duration\<rparr>,
            set_pwm (next_cmd_time b) (width / SIGNAL_PERIOD) w)))"
  by (simp add: send_cmd_def next_time_def Let_def split: option.splits)

lemma sync_print_time_eq:
  "sync_print_time (b, w) =
     (b\<lparr>next_cmd_time := max (next_cmd_time b) (last_move_time w)\<rparr>,
      w\<lparr>last_move_time := max (next_cmd_time b) (last_move_time w)\<rparr>)"
  by (simp add: sync_print_time_def get_last_move_time_def dwell_def Let_def max_def)

lemma sync_mcu_print_time_eq:
  "sync_mcu_print_time c (b, w) =
     (b\<lparr>next_cmd_time :=
          max (next_cmd_time b) (estimated_print_time c (monotonic w) + MIN_CMD_TIME)\<rparr>,
      w\<lparr>est_queries := est_queries w @ [monotonic w]\<rparr>)"
  by (simp add: sync_mcu_print_time_def Let_def)

lemma raise_probe_eq:
  "raise_probe c (b, w) =
     (let t1 = next_time c (next_cmd_time b) MIN_CMD_TIME;
          t2 = next_time c t1 (pin_move_time b);
          t3 = next_time c t2 MIN_CMD_TIME;
          w3 = set_pwm t2 (0.0 / SIGNAL_PERIOD)
                 (set_pwm t1 (0.001500 / SIGNAL_PERIOD)
                    (set_pwm (next_cmd_time b) (0.002200 / SIGNAL_PERIOD) w))
      in verify_state c t2 t3 (pin_up_triggered b) ''raise probe''
           (b\<lparr>next_cmd_time := t3\<rparr>, w3))"
  by (simp add: raise_probe_def send_cmd_eq and_then_def Commands_reset Commands_pin_up
      Commands_idle Let_def)

lemma test_sensor_eq:
  "test_sensor c (b, w) =
     (if \<not> pin_up_touch_triggered b \<or> pin_up_triggered b then (Inr (), (b, w))
      else if last_move_time w < next_test_time b
      then (Inr (), (b\<lparr>next_test_time := last_move_time w + TEST_TIME\<rparr>, w))
      else
        (let t0 = max (next_cmd_time b) (last_move_time w);
             t1 = next_time c t0 (pin_move_time b);
             t2 = next_time c t1 MIN_CMD_TIME;
             t3 = next_time c t2 MIN_CMD_TIME;
             w4 = set_pwm t2 (0.0 / SIGNAL_PERIOD)
                    (set_pwm t1 (0.001200 / SIGNAL_PERIOD)
                       (set_pwm t0 (0.002200 / SIGNAL_PERIOD) (w\<lparr>last_move_time := t0\<rparr>)))
         in case verify_state c t1 t2 True ''verify sensor state''
                   (b\<lparr>next_cmd_time := t3\<rparr>, w4) of
              (Inl e, st5) \<Rightarrow> (Inl e, st5)
            | (Inr u, st5) \<Rightarrow>
                (Inr (), sync_print_time
                           ((fst st5)\<lparr>next_test_time := t2 + TEST_TIME\<rparr>, snd st5))))"
  by (simp add: test_sensor_def get_last_move_time_def sync_print_time_eq send_cmd_eq
      and_then_def Commands_reset Commands_touch_mode Commands_idle Let_def
      split: prod.splits sum.splits)

lemma verify_state_result:
  "fst (verify_state c t0 t1 triggered msg (b, w)) =
     (if verify_times_out c t0 t1 triggered w
      then Inl (EndstopError (''BLTouch failed to '' @ msg)) else Inr ())"
  by (simp add: verify_state_cases Let_def)

lemma verify_state_frame:
  "fst (snd (verify_state c t0 t1 triggered msg (b, w))) = b"
  "last_move_time (snd (snd (verify_state c t0 t1 triggered msg (b, w)))) = last_move_time w"
  "monotonic (snd (snd (verify_state c t0 t1 triggered msg (b, w)))) = monotonic w"
  "est_queries (snd (snd (verify_state c t0 t1 triggered msg (b, w)))) = est_queries w"
  "pwm_log (snd (snd (verify_state c t0 t1 triggered msg (b, w)))) = pwm_log w"
  "steppers (snd (snd (verify_state c t0 t1 triggered msg (b, w)))) = steppers w"
  "mcu_position (snd (snd (verify_state c t0 t1 triggered msg (b, w)))) = mcu_position w"
  "endstop_log (snd (snd (verify_state c t0 t1 triggered msg (b, w)))) =
     endstop_log w @ [Home_start t0 ENDSTOP_SAMPLE_TIME ENDSTOP_SAMPLE_COUNT
                        ENDSTOP_REST_TIME (Some triggered), Home_wait t1]"
  by (simp_all add: verify_state_cases Let_def set_commanded_positions_frame
      endstop_home_wait_def endstop_home_start_def split: prod.splits)

lemma set_pwm_frame:
  "last_move_time (set_pwm t v w) = last_move_time w"
  "monotonic (set_pwm t v w) = monotonic w"
  "est_queries (set_pwm t v w) = est_queries w"
  "pwm_log (set_pwm t v w) = pwm_log w @ [(t, v)]"
  "endstop_log (set_pwm t v w) = endstop_log w"
  "steppers (set_pwm t v w) = steppers w"
  "commanded_position (set_pwm t v w) = commanded_position w"
  "mcu_position (set_pwm t v w) = mcu_position w"
  by (simp_all add: set_pwm_def)

lemma failed_to_deploy_iff:
  "failed_to_deploy w xs \<longleftrightarrow> (\<exists>(s, p) \<in> set xs. mcu_position w s = p)"
  by (induction w xs rule: failed_to_deploy.induct) auto

lemma raise_probe_result:
  "fst (raise_probe c (b, w)) = Inr () \<or>
   fst (raise_probe c (b, w)) = Inl (EndstopError ''BLTouch failed to raise probe'')"
  by (simp add: raise_probe_eq Let_def verify_state_result)

lemma raise_probe_frame:
  "position_endstop (fst (snd (raise_probe c (b, w)))) = position_endstop b"
  "next_test_time (fst (snd (raise_probe c (b, w)))) = next_test_time b"
  "pin_up_touch_triggered (fst (snd (raise_probe c (b, w)))) = pin_up_touch_triggered b"
  "pin_up_triggered (fst (snd (raise_probe c (b, w)))) = pin_up_triggered b"
  "start_mcu_pos (fst (snd (raise_probe c (b, w)))) = start_mcu_pos b"
  "pin_move_time (fst (snd (raise_probe c (b, w)))) = pin_move_time b"
  "last_move_time (snd (snd (raise_probe c (b, w)))) = last_move_time w"
  "monotonic (snd (snd (raise_probe c (b, w)))) = monotonic w"
  "est_queries (snd (snd (raise_probe c (b, w)))) = est_queries w"
  "steppers (snd (snd (raise_probe c (b, w)))) = steppers w"
  "mcu_position (snd (snd (raise_probe c (b, w)))) = mcu_position w"
  "finalize_calls (snd (snd (raise_probe c (b, w)))) = finalize_calls w"
  by (simp_all add: raise_probe_eq Let_def verify_state_frame set_pwm_frame finalize_calls_def)

lemma raise_probe_cursor:
  "next_cmd_time (fst (snd (raise_probe c (b, w)))) =
     next_time c (next_time c (next_time c (next_cmd_time b) MIN_CMD_TIME) (pin_move_time b))
       MIN_CMD_TIME"
  by (simp add: raise_probe_eq Let_def verify_state_frame)

lemma home_finalize_eq:
  "home_finalize c (b, w) =
     (case raise_probe c (sync_mcu_print_time c (b, w)) of
        (Inl e, st1) \<Rightarrow> (Inl e, st1)
      | (Inr u, st1) \<Rightarrow>
          if failed_to_deploy w (start_mcu_pos b)
          then (Inl (EndstopError ''BLTouch failed to deploy''), sync_print_time st1)
          else (Inr (), (fst (sync_print_time st1),
                         endstop_home_finalize (snd (sync_print_time st1)))))"
proof -
  obtain r b1 w1 where rp: "raise_probe c (sync_mcu_print_time c (b, w)) = (r, (b1, w1))"
    by (metis prod.exhaust)
  have "start_mcu_pos b1 = start_mcu_pos b" "mcu_position w1 = mcu_position w"
    using raise_probe_frame(5,11) [of c
        "b\<lparr>next_cmd_time := max (next_cmd_time b)
              (estimated_print_time c (monotonic w) + MIN_CMD_TIME)\<rparr>"
        "w\<lparr>est_queries := est_queries w @ [monotonic w]\<rparr>"] rp
    by (simp_all add: sync_mcu_print_time_eq)
  then show ?thesis
    by (simp add: home_finalize_def and_then_def rp sync_print_time_eq failed_to_deploy_iff
        split: sum.splits)
qed

lemma home_prepare_eq:
  "home_prepare c (b, w) =
     (case test_sensor c (b, w) of
        (Inl e, st1) \<Rightarrow> (Inl e, st1)
      | (Inr u, (b1, w1)) \<Rightarrow>
          (let t0 = max (next_cmd_time b1) (last_move_time w1);
               t1 = next_time c t0 (pin_move_time b1 - MIN_CMD_TIME);
               t2 = next_time c t1 MIN_CMD_TIME;
               t3 = max t2 t0;
               w3 = endstop_home_prepare
                      ((set_pwm t1 (0.0 / SIGNAL_PERIOD)
                         (set_pwm t0 (0.000700 / SIGNAL_PERIOD) (w1\<lparr>last_move_time := t0\<rparr>)))
                       \<lparr>last_move_time := t3\<rparr>)
           in (Inr (), (b1\<lparr>next_cmd_time := t3,
                           start_mcu_pos := map (\<lambda>s. (s, mcu_position w3 s)) (steppers w3)\<rparr>,
                        w3))))"
  by (simp add: home_prepare_def and_then_def sync_print_time_eq send_cmd_eq
      Commands_pin_down Commands_idle Let_def set_pwm_frame
      split: prod.splits sum.splits)

lemma cmd_BLTOUCH_DEBUG_eq:
  "cmd_BLTOUCH_DEBUG c cmd (b, w) =
     (case (if cmd = None then None else Commands cmd) of
        None \<Rightarrow> (Inr (), (b, w))
      | Some width \<Rightarrow>
          (let t0 = max (next_cmd_time b) (last_move_time w);
               t1 = next_time c t0 (pin_move_time b);
               t2 = next_time c t1 MIN_CMD_TIME;
               t3 = max t2 t0
           in (Inr (), (b\<lparr>next_cmd_time := t3\<rparr>,
                        (set_pwm t1 (0.0 / SIGNAL_PERIOD)
                           (set_pwm t0 (width / SIGNAL_PERIOD) (w\<lparr>last_move_time := t0\<rparr>)))
                        \<lparr>last_move_time := t3\<rparr>))))"
  by (auto simp: cmd_BLTOUCH_DEBUG_def and_then_def sync_print_time_eq send_cmd_eq
      Commands_idle Let_def set_pwm_frame split: prod.splits sum.splits option.splits)

lemma send_cmd_est_queries:
  "est_queries (snd (snd (send_cmd c cmd duration (b, w)))) = est_queries w"
  by (simp add: send_cmd_eq set_pwm_frame split: option.splits)

lemma sync_print_time_est_queries:
  "est_queries (snd (sync_print_time (b, w))) = est_queries w"
  by (simp add: sync_print_time_eq)

lemma test_sensor_est_queries:
  "est_queries (snd (snd (test_sensor c (b, w)))) = est_queries w"
proof -
  have vs: "est_queries (snd st5) = est_queries w0"
    if "verify_state c t0 t1 tr msg (b0, w0) = (r, st5)" for t0 t1 tr msg b0 w0 r st5
    using verify_state_frame(4) [of c t0 t1 tr msg b0 w0] that by simp
  show ?thesis
    by (auto simp: test_sensor_eq Let_def sync_print_time_eq set_pwm_frame
        split: prod.splits sum.splits dest!: vs)
qed

lemma home_prepare_est_queries:
  "est_queries (snd (snd (home_prepare c (b, w)))) = est_queries w"
proof -
  obtain r b1 w1 where ts: "test_sensor c (b, w) = (r, (b1, w1))"
    by (metis prod.exhaust)
  then have "est_queries w1 = est_queries w"
    using test_sensor_est_queries [of c b w] by simp
  then show ?thesis
    by (cases r) (simp_all add: home_prepare_eq ts Let_def set_pwm_frame endstop_home_prepare_def)
qed

lemma home_finalize_est_queries:
  "est_queries (snd (snd (home_finalize c (b, w)))) = est_queries w @ [monotonic w]"
proof -
  let ?b0 = "b\<lparr>next_cmd_time := max (next_cmd_time b)
              (estimated_print_time c (monotonic w) + MIN_CMD_TIME)\<rparr>"
  let ?w0 = "w\<lparr>est_queries := est_queries w @ [monotonic w]\<rparr>"
  obtain r b1 w1 where rp: "raise_probe c (?b0, ?w0) = (r, (b1, w1))"
    by (metis prod.exhaust)
  then have "est_queries w1 = est_queries w @ [monotonic w]"
    using raise_probe_frame(9) [of c ?b0 ?w0] by simp
  then show ?thesis
    by (cases r)
      (simp_all add: home_finalize_eq sync_mcu_print_time_eq rp sync_print_time_eq
        endstop_home_finalize_def)
qed

lemma printer_state_est_queries:
  "est_queries (snd (snd (printer_state c n (b, w)))) =
     est_queries w @ (if n = ''connect'' then [monotonic w] else [])"
proof -
  let ?b0 = "b\<lparr>next_cmd_time := max (next_cmd_time b)
              (estimated_print_time c (monotonic w) + MIN_CMD_TIME)\<rparr>"
  let ?w0 = "w\<lparr>est_queries := est_queries w @ [monotonic w]\<rparr>"
  obtain r b1 w1 where rp: "raise_probe c (?b0, ?w0) = (r, (b1, w1))"
    by (metis prod.exhaust)
  then have "est_queries w1 = est_queries w @ [monotonic w]"
    using raise_probe_frame(9) [of c ?b0 ?w0] by simp
  then show ?thesis
    by (simp add: printer_state_def sync_mcu_print_time_eq rp split: sum.splits error.splits)
qed

lemma cmd_BLTOUCH_DEBUG_est_queries:
  "est_queries (snd (snd (cmd_BLTOUCH_DEBUG c cmd (b, w)))) = est_queries w"
  by (simp add: cmd_BLTOUCH_DEBUG_eq Let_def set_pwm_frame split: option.splits)

text \<open>The facts that evaluate a call on the simulated printer.\<close>

lemmas sim_eval = sync_mcu_print_time_eq raise_probe_eq verify_state_cases
      verify_times_out_def Let_def sim_collab_def sim_world_def init_default_config
      endstop_home_start_def endstop_home_wait_def set_pwm_def
      endstop_home_finalize_def finalize_calls_def sync_print_time_eq

subsection \<open>The end of a homing attempt\<close>

text \<open>
  C2, as the code has it. When \<^verbatim>\<open>start_mcu_pos\<close> is not empty and every stepper in
  it has the mcu position recorded for it, \<^verbatim>\<open>home_finalize\<close> raises an
  \<^verbatim>\<open>EndstopError\<close> and does not call \<^verbatim>\<open>mcu_endstop.home_finalize\<close>. The text of
  the error is "BLTouch failed to deploy" when \<^verbatim>\<open>raise_probe\<close> returned, and
  "BLTouch failed to raise probe" when the verification in \<^verbatim>\<open>raise_probe\<close> timed
  out, which ends \<^verbatim>\<open>home_finalize\<close> before the positions are compared.
\<close>

theorem home_finalize_unchanged_fails:
  assumes "start_mcu_pos b \<noteq> []"
    and "\<forall>(s, p) \<in> set (start_mcu_pos b). mcu_position w s = p"
  shows "fst (home_finalize c (b, w)) =
           Inl (EndstopError
                 (if fst (raise_probe c (sync_mcu_print_time c (b, w))) = Inr ()
                  then ''BLTouch failed to deploy'' else ''BLTouch failed to raise probe''))
         \<and> finalize_calls (snd (snd (home_finalize c (b, w)))) = finalize_calls w"
proof -
  from assms have ftd: "failed_to_deploy w (start_mcu_pos b)"
    by (cases "start_mcu_pos b") (auto simp: failed_to_deploy_iff)
  let ?b0 = "b\<lparr>next_cmd_time := max (next_cmd_time b)
              (estimated_print_time c (monotonic w) + MIN_CMD_TIME)\<rparr>"
  let ?w0 = "w\<lparr>est_queries := est_queries w @ [monotonic w]\<rparr>"
  obtain r b1 w1 where rp: "raise_probe c (?b0, ?w0) = (r, (b1, w1))"
    by (metis prod.exhaust)
  have fin: "finalize_calls w1 = finalize_calls w"
    using raise_probe_frame(12) [of c ?b0 ?w0] rp by (simp add: finalize_calls_def)
  have res: "r = Inr () \<or> r = Inl (EndstopError ''BLTouch failed to raise probe'')"
    using raise_probe_result [of c ?b0 ?w0] rp by simp
  show ?thesis
    using res ftd fin
    by (auto simp: home_finalize_eq sync_mcu_print_time_eq rp sync_print_time_eq
        finalize_calls_def)
qed

text \<open>
  The simulated printer with one stepper, whose mcu position 100 is the recorded one,
  and an endstop that confirms the raised probe: "BLTouch failed to deploy", and no
  call of the endstop's \<^verbatim>\<open>home_finalize\<close>.
\<close>

theorem home_finalize_unchanged_fails_witness:
  "start_mcu_pos ((init default_config)\<lparr>start_mcu_pos := [(0, 100)]\<rparr>) \<noteq> []
   \<and> fst (home_finalize (sim_collab False 0)
        ((init default_config)\<lparr>start_mcu_pos := [(0, 100)]\<rparr>, sim_world [0]))
       = Inl (EndstopError ''BLTouch failed to deploy'')
   \<and> finalize_calls (snd (snd (home_finalize (sim_collab False 0)
        ((init default_config)\<lparr>start_mcu_pos := [(0, 100)]\<rparr>, sim_world [0])))) = 0"
proof -
  have ne: "start_mcu_pos ((init default_config)\<lparr>start_mcu_pos := [(0, 100)]\<rparr>) \<noteq> []"
    by simp
  have same: "\<forall>(s, p) \<in> set (start_mcu_pos ((init default_config)\<lparr>start_mcu_pos := [(0, 100)]\<rparr>)).
      mcu_position (sim_world [0]) s = p"
    by (simp add: sim_world_def)
  have ok: "fst (raise_probe (sim_collab False 0) (sync_mcu_print_time (sim_collab False 0)
      ((init default_config)\<lparr>start_mcu_pos := [(0, 100)]\<rparr>, sim_world [0]))) = Inr ()"
    by (simp add: sim_eval)
  have fc: "finalize_calls (sim_world [0]) = 0"
    by (simp add: sim_world_def finalize_calls_def)
  from home_finalize_unchanged_fails [OF ne same, of "sim_collab False 0"] ok fc ne show ?thesis by simp
qed

text \<open>
  C2 as stated fails in two ways. One stepper is recorded at 100 and still at 100, but
  the verification in \<^verbatim>\<open>raise_probe\<close> times out: the error of \<^verbatim>\<open>home_finalize\<close>
  is "BLTouch failed to raise probe", raised before the positions are compared. And
  for an endstop without steppers \<^verbatim>\<open>start_mcu_pos\<close> is empty, the loop has nothing
  to compare, \<^verbatim>\<open>home_finalize\<close> returns and has called
  \<^verbatim>\<open>mcu_endstop.home_finalize\<close>.
\<close>

theorem home_finalize_unchanged_counterexample:
  "start_mcu_pos ((init default_config)\<lparr>start_mcu_pos := [(0, 100)]\<rparr>) = [(0, 100)]
   \<and> mcu_position (sim_world [0]) 0 = 100
   \<and> fst (home_finalize (sim_collab True 0)
        ((init default_config)\<lparr>start_mcu_pos := [(0, 100)]\<rparr>, sim_world [0]))
       = Inl (EndstopError ''BLTouch failed to raise probe'')
   \<and> start_mcu_pos (init default_config) = []
   \<and> fst (home_finalize (sim_collab False 0) (init default_config, sim_world [])) = Inr ()
   \<and> finalize_calls (sim_world []) = 0
   \<and> finalize_calls (snd (snd (home_finalize (sim_collab False 0)
        (init default_config, sim_world [])))) = 1"
  by (simp add: home_finalize_eq sim_eval)

text \<open>
  C10, as the code has it. When \<^verbatim>\<open>raise_probe\<close> returns, \<^verbatim>\<open>home_finalize\<close> raises
  "BLTouch failed to deploy" exactly when at least one stepper of \<^verbatim>\<open>start_mcu_pos\<close>
  has the mcu position recorded for it, whatever the others did. In every case
  \<^verbatim>\<open>home_finalize\<close> returns only when the mcu position of every recorded stepper has
  changed.
\<close>

theorem home_finalize_any_unchanged:
  "(fst (raise_probe c (sync_mcu_print_time c (b, w))) = Inr () \<longrightarrow>
      (fst (home_finalize c (b, w)) = Inl (EndstopError ''BLTouch failed to deploy''))
        = (\<exists>(s, p) \<in> set (start_mcu_pos b). mcu_position w s = p))
   \<and> (fst (home_finalize c (b, w)) = Inr () \<longrightarrow>
        (\<forall>(s, p) \<in> set (start_mcu_pos b). mcu_position w s \<noteq> p))"
proof -
  obtain r st1 where rp: "raise_probe c (sync_mcu_print_time c (b, w)) = (r, st1)"
    by (metis prod.exhaust)
  show ?thesis
    by (cases r) (auto simp: home_finalize_eq rp failed_to_deploy_iff)
qed

text \<open>
  Two steppers and an endstop that confirms the raised probe. Stepper 0 moved from 99 to
  100 and stepper 1 stayed at 100: "BLTouch failed to deploy". Both moved: the call
  returns.
\<close>

theorem home_finalize_any_unchanged_witness:
  "fst (home_finalize (sim_collab False 0)
        ((init default_config)\<lparr>start_mcu_pos := [(0, 99), (1, 100)]\<rparr>, sim_world [0, 1]))
       = Inl (EndstopError ''BLTouch failed to deploy'')
   \<and> fst (home_finalize (sim_collab False 0)
        ((init default_config)\<lparr>start_mcu_pos := [(0, 99), (1, 98)]\<rparr>, sim_world [0, 1]))
       = Inr ()"
proof -
  let ?c = "sim_collab False 0"
  let ?b1 = "(init default_config)\<lparr>start_mcu_pos := [(0, 99), (1, 100)]\<rparr>"
  let ?b2 = "(init default_config)\<lparr>start_mcu_pos := [(0, 99), (1, 98)]\<rparr>"
  have ok1: "fst (raise_probe ?c (sync_mcu_print_time ?c (?b1, sim_world [0, 1]))) = Inr ()"
    by (simp add: sim_eval)
  have some: "\<exists>(s, p) \<in> set (start_mcu_pos ?b1). mcu_position (sim_world [0, 1]) s = p"
    by (simp add: sim_world_def)
  have fin2: "fst (home_finalize ?c (?b2, sim_world [0, 1])) = Inr ()"
    by (simp add: home_finalize_eq sim_eval)
  from home_finalize_any_unchanged [of ?c ?b1 "sim_world [0, 1]"] ok1 some
  have "fst (home_finalize ?c (?b1, sim_world [0, 1])) = Inl (EndstopError ''BLTouch failed to deploy'')"
    by blast
  moreover from home_finalize_any_unchanged [of ?c ?b2 "sim_world [0, 1]"] fin2
  have "\<forall>(s, p) \<in> set (start_mcu_pos ?b2). mcu_position (sim_world [0, 1]) s \<noteq> p"
    by blast
  ultimately show ?thesis using fin2 by blast
qed

text \<open>
  C10 as stated fails when the verification in \<^verbatim>\<open>raise_probe\<close> times out: stepper 0
  has the recorded mcu position 100, and the error of \<^verbatim>\<open>home_finalize\<close> is
  "BLTouch failed to raise probe", not "BLTouch failed to deploy".
\<close>

theorem home_finalize_raise_probe_counterexample:
  "mcu_position (sim_world [0, 1]) 0 = 100
   \<and> fst (home_finalize (sim_collab True 0)
        ((init default_config)\<lparr>start_mcu_pos := [(0, 100), (1, 99)]\<rparr>, sim_world [0, 1]))
       = Inl (EndstopError ''BLTouch failed to raise probe'')"
  by (simp add: home_finalize_eq sim_eval)

subsection \<open>The synchronization with the realtime clock\<close>

lemma call_est_queries:
  "est_queries (snd (call c x (b, w))) =
     est_queries w @ (if performs_realtime_sync x then [monotonic w] else [])
   \<and> sync_mcu_print_time c (b, w) =
       (b\<lparr>next_cmd_time :=
            max (next_cmd_time b) (estimated_print_time c (monotonic w) + MIN_CMD_TIME)\<rparr>,
        w\<lparr>est_queries := est_queries w @ [monotonic w]\<rparr>)"
proof -
  have "est_queries (snd (call c x (b, w))) =
     est_queries w @ (if performs_realtime_sync x then [monotonic w] else [])"
  proof (cases x)
    case (Op_printer_state n)
    then show ?thesis by (simp add: printer_state_est_queries)
  next
    case Op_sync_mcu_print_time
    then show ?thesis by (simp add: sync_mcu_print_time_eq)
  next
    case Op_sync_print_time
    then show ?thesis by (simp add: sync_print_time_eq)
  next
    case (Op_send_cmd cmd d)
    then show ?thesis by (simp add: send_cmd_est_queries)
  next
    case (Op_verify_state t0 t1 tr msg)
    then show ?thesis by (simp add: verify_state_frame)
  next
    case Op_raise_probe
    then show ?thesis by (simp add: raise_probe_frame)
  next
    case Op_test_sensor
    then show ?thesis by (simp add: test_sensor_est_queries)
  next
    case Op_home_prepare
    then show ?thesis by (simp add: home_prepare_est_queries)
  next
    case Op_home_finalize
    then show ?thesis by (simp add: home_finalize_est_queries)
  next
    case (Op_home_start pt st sc rt)
    then show ?thesis by (simp add: home_start_def endstop_home_start_def)
  next
    case (Op_cmd_BLTOUCH_DEBUG cmd)
    then show ?thesis by (simp add: cmd_BLTOUCH_DEBUG_est_queries)
  qed
  then show ?thesis by (simp add: sync_mcu_print_time_eq)
qed


lemma raise_probe_pwm_log:
  "pwm_log (snd (snd (raise_probe c (b, w)))) =
     pwm_log w @
       [(next_cmd_time b, 0.002200 / SIGNAL_PERIOD),
        (next_time c (next_cmd_time b) MIN_CMD_TIME, 0.001500 / SIGNAL_PERIOD),
        (next_time c (next_time c (next_cmd_time b) MIN_CMD_TIME) (pin_move_time b),
         0.0 / SIGNAL_PERIOD)]"
  by (simp add: raise_probe_eq Let_def verify_state_frame set_pwm_frame)

lemma printer_state_connect_state:
  "snd (printer_state c ''connect'' st) = snd (raise_probe c (sync_mcu_print_time c st))"
  by (simp add: printer_state_def split: prod.splits sum.splits error.splits)

lemma home_finalize_pwm_log:
  "pwm_log (snd (snd (home_finalize c (b, w)))) =
     pwm_log (snd (snd (raise_probe c (sync_mcu_print_time c (b, w)))))"
proof -
  obtain r b1 w1 where rp: "raise_probe c (sync_mcu_print_time c (b, w)) = (r, (b1, w1))"
    by (metis prod.exhaust)
  show ?thesis
    by (cases r) (simp_all add: home_finalize_eq rp sync_print_time_eq endstop_home_finalize_def)
qed

lemma home_finalize_cursor:
  "next_cmd_time (fst (snd (home_finalize c (b, w)))) =
     (if fst (raise_probe c (sync_mcu_print_time c (b, w))) = Inr ()
      then max (next_cmd_time (fst (snd (raise_probe c (sync_mcu_print_time c (b, w))))))
             (last_move_time w)
      else next_cmd_time (fst (snd (raise_probe c (sync_mcu_print_time c (b, w))))))"
proof -
  obtain r b1 w1 where rp: "raise_probe c (sync_mcu_print_time c (b, w)) = (r, (b1, w1))"
    by (metis prod.exhaust)
  have "last_move_time w1 = last_move_time w"
    using raise_probe_frame(7) [of c
        "b\<lparr>next_cmd_time := max (next_cmd_time b)
              (estimated_print_time c (monotonic w) + MIN_CMD_TIME)\<rparr>"
        "w\<lparr>est_queries := est_queries w @ [monotonic w]\<rparr>"] rp
    by (simp add: sync_mcu_print_time_eq)
  then show ?thesis
    by (cases r) (simp_all add: home_finalize_eq rp sync_print_time_eq)
qed

lemma send_cmd_estimate:
  "send_cmd (c\<lparr>estimated_print_time := g\<rparr>) cmd d st = send_cmd c cmd d st"
  by (cases st) (simp add: send_cmd_def split: option.splits)

lemma verify_state_estimate:
  "verify_state (c\<lparr>estimated_print_time := g\<rparr>) t0 t1 tr msg st = verify_state c t0 t1 tr msg st"
  by (cases st) (simp add: verify_state_def endstop_home_wait_def)

lemma raise_probe_estimate:
  "raise_probe (c\<lparr>estimated_print_time := g\<rparr>) st = raise_probe c st"
  by (simp add: raise_probe_def send_cmd_estimate verify_state_estimate)

lemma test_sensor_estimate:
  "test_sensor (c\<lparr>estimated_print_time := g\<rparr>) st = test_sensor c st"
  by (cases st) (simp add: test_sensor_def send_cmd_estimate verify_state_estimate Let_def)

lemma home_prepare_estimate:
  "home_prepare (c\<lparr>estimated_print_time := g\<rparr>) st = home_prepare c st"
  by (simp add: home_prepare_def send_cmd_estimate test_sensor_estimate Let_def)

lemma cmd_BLTOUCH_DEBUG_estimate:
  "cmd_BLTOUCH_DEBUG (c\<lparr>estimated_print_time := g\<rparr>) cmd st = cmd_BLTOUCH_DEBUG c cmd st"
  by (simp add: cmd_BLTOUCH_DEBUG_def send_cmd_estimate)

lemma call_estimate:
  "\<not> performs_realtime_sync x \<Longrightarrow>
   call (c\<lparr>estimated_print_time := g\<rparr>) x st = call c x st"
  by (cases x)
    (simp_all add: printer_state_def send_cmd_estimate verify_state_estimate
      raise_probe_estimate test_sensor_estimate home_prepare_estimate
      cmd_BLTOUCH_DEBUG_estimate)

text \<open>
  C8, as the code has it. \<^verbatim>\<open>sync_mcu_print_time\<close> asks the mcu once for the estimated
  print time of the reactor's current time and sets \<^verbatim>\<open>next_cmd_time\<close> to the maximum
  of itself and that estimate plus \<^verbatim>\<open>MIN_CMD_TIME\<close>. Of the wrapper's methods,
  \<^verbatim>\<open>printer_state('connect')\<close> and \<^verbatim>\<open>home_finalize\<close> perform it, once in each call
  and before anything else: the connection is \<^verbatim>\<open>raise_probe\<close> on the synchronized
  state, \<^verbatim>\<open>home_finalize\<close> sends the commands of \<^verbatim>\<open>raise_probe\<close> on the
  synchronized state and ends at its cursor (or at the last move time, if that is
  later and \<^verbatim>\<open>raise_probe\<close> returned), and the first of these commands goes out at
  the synchronized cursor. No other method asks for the estimate, and what any other
  method does is the same whatever the estimate is.
\<close>

theorem realtime_sync_callers:
  "est_queries (snd (call c x (b, w))) =
     est_queries w @ (if performs_realtime_sync x then [monotonic w] else [])
   \<and> sync_mcu_print_time c (b, w) =
       (b\<lparr>next_cmd_time :=
            max (next_cmd_time b) (estimated_print_time c (monotonic w) + MIN_CMD_TIME)\<rparr>,
        w\<lparr>est_queries := est_queries w @ [monotonic w]\<rparr>)
   \<and> call c (Op_printer_state ''connect'') (b, w) =
       call c Op_raise_probe (sync_mcu_print_time c (b, w))
   \<and> pwm_log (snd (call c Op_home_finalize (b, w))) =
       pwm_log (snd (call c Op_raise_probe (sync_mcu_print_time c (b, w))))
   \<and> next_cmd_time (fst (call c Op_home_finalize (b, w))) =
       (if fst (raise_probe c (sync_mcu_print_time c (b, w))) = Inr ()
        then max (next_cmd_time (fst (call c Op_raise_probe (sync_mcu_print_time c (b, w)))))
               (last_move_time w)
        else next_cmd_time (fst (call c Op_raise_probe (sync_mcu_print_time c (b, w)))))
   \<and> hd (drop (length (pwm_log w)) (pwm_log (snd (call c Op_raise_probe
          (sync_mcu_print_time c (b, w)))))) =
       (max (next_cmd_time b) (estimated_print_time c (monotonic w) + MIN_CMD_TIME),
        0.002200 / SIGNAL_PERIOD)
   \<and> (\<not> performs_realtime_sync x \<longrightarrow>
        (\<forall>g. call (c\<lparr>estimated_print_time := g\<rparr>) x (b, w) = call c x (b, w)))"
proof -
  have first: "hd (drop (length (pwm_log w)) (pwm_log (snd (call c Op_raise_probe
          (sync_mcu_print_time c (b, w)))))) =
       (max (next_cmd_time b) (estimated_print_time c (monotonic w) + MIN_CMD_TIME),
        0.002200 / SIGNAL_PERIOD)"
    by (simp add: sync_mcu_print_time_eq raise_probe_pwm_log)
  show ?thesis
    using call_est_queries [of c x b w] first
    by (simp add: printer_state_connect_state home_finalize_pwm_log home_finalize_cursor
        call_estimate)
qed

text \<open>
  On the simulated printer, whose reactor shows the time 10: the connection asks for
  the estimate once, \<^verbatim>\<open>home_prepare\<close> does not ask.
\<close>

theorem realtime_sync_callers_witness:
  "est_queries (snd (call (sim_collab False 0) (Op_printer_state ''connect'')
      (init default_config, sim_world [0]))) = [10]
   \<and> est_queries (snd (call (sim_collab False 0) Op_home_prepare
      (init default_config, sim_world [0]))) = []"
proof -
  let ?c = "sim_collab False 0"
  let ?b = "init default_config"
  let ?w = "sim_world [0]"
  from realtime_sync_callers [of ?c "Op_printer_state ''connect''" ?b ?w]
  have "est_queries (snd (call ?c (Op_printer_state ''connect'') (?b, ?w))) =
      est_queries ?w @
        (if performs_realtime_sync (Op_printer_state ''connect'') then [monotonic ?w] else [])"
    by (rule conjunct1)
  moreover from realtime_sync_callers [of ?c Op_home_prepare ?b ?w]
  have "est_queries (snd (call ?c Op_home_prepare (?b, ?w))) =
      est_queries ?w @ (if performs_realtime_sync Op_home_prepare then [monotonic ?w] else [])"
    by (rule conjunct1)
  ultimately show ?thesis by (simp add: sim_world_def)
qed

text \<open>
  C8 as stated fails for \<^verbatim>\<open>home_finalize\<close>, which is no part of the connection: it
  asks for the estimate at the reactor's time 10, and its first command goes out at
  that estimate plus \<^verbatim>\<open>MIN_CMD_TIME\<close>.
\<close>

theorem home_finalize_realtime_sync_counterexample:
  "est_queries (sim_world [0]) = []
   \<and> est_queries (snd (snd (home_finalize (sim_collab False 0)
        ((init default_config)\<lparr>start_mcu_pos := [(0, 99)]\<rparr>, sim_world [0])))) = [10]
   \<and> fst (hd (pwm_log (snd (snd (home_finalize (sim_collab False 0)
        ((init default_config)\<lparr>start_mcu_pos := [(0, 99)]\<rparr>, sim_world [0])))))) = 10 + MIN_CMD_TIME"
  by (simp add: home_finalize_eq sim_eval MIN_CMD_TIME_def SIGNAL_PERIOD_def)

subsection \<open>Auxiliary facts: the clock, and times that only move forward\<close>

lemma next_time_lower:
  assumes "clock_precise c"
  shows "t + max duration MIN_CMD_TIME - 2 / mcu_freq c < next_time c t duration"
proof -
  let ?f = "mcu_freq c"
  let ?D = "max duration MIN_CMD_TIME"
  let ?p = "real_of_int (print_time_to_clock c t)"
  let ?s = "real_of_int (seconds_to_clock c ?D)"
  from assms have f: "0 < ?f" by (simp add: clock_precise_def)
  from assms have "\<bar>?p - t * ?f\<bar> < 1" "\<bar>?s - ?D * ?f\<bar> < 1"
    unfolding clock_precise_def by blast+
  then have "t * ?f + ?D * ?f - 2 < ?p + ?s" by linarith
  then have "(t * ?f + ?D * ?f - 2) / ?f < (?p + ?s) / ?f"
    using f by (simp add: divide_strict_right_mono)
  moreover have "(t * ?f + ?D * ?f - 2) / ?f = t + ?D - 2 / ?f"
    using f by (simp add: field_simps)
  moreover from assms have "next_time c t duration = (?p + ?s) / ?f"
    by (simp add: next_time_def clock_precise_def)
  ultimately show ?thesis by simp
qed

lemma next_time_gt:
  assumes "clock_precise c"
  shows "t < next_time c t duration"
proof -
  from assms have f: "1000000 < mcu_freq c" by (simp add: clock_precise_def)
  then have "2 / mcu_freq c < 2 / 1000000"
    by (intro divide_strict_left_mono) simp_all
  moreover have "1024 / 10000 \<le> max duration MIN_CMD_TIME"
    by (simp add: MIN_CMD_TIME_def SIGNAL_PERIOD_def max_def)
  ultimately have "t \<le> t + max duration MIN_CMD_TIME - 2 / mcu_freq c" by simp
  with next_time_lower [OF assms, of t duration] show ?thesis by simp
qed

lemma sim_collab_precise: "clock_precise (sim_collab timeout shift)"
proof -
  have "\<bar>real_of_int \<lfloor>x\<rfloor> - x\<bar> < 1" for x :: real by linarith
  then show ?thesis by (simp add: clock_precise_def sim_collab_def)
qed

lemma steady_refl: "steady st st"
  by (simp add: steady_def)

lemma steady_trans: "steady st st' \<Longrightarrow> steady st' st'' \<Longrightarrow> steady st st''"
  by (auto simp: steady_def)

lemma steady_later: "steady st st' \<Longrightarrow> later st st'"
  by (simp add: steady_def later_def)

lemma steady_bounded: "steady st st' \<Longrightarrow> test_time_bounded st \<Longrightarrow> test_time_bounded st'"
  by (auto simp: steady_def test_time_bounded_def)

lemma later_trans: "later st st' \<Longrightarrow> later st' st'' \<Longrightarrow> later st st''"
  by (auto simp: later_def)

lemma steady_sync_mcu_print_time: "steady (b, w) (sync_mcu_print_time c (b, w))"
  by (simp add: steady_def sync_mcu_print_time_eq)

lemma steady_sync_print_time: "steady (b, w) (sync_print_time (b, w))"
  by (simp add: steady_def sync_print_time_eq)

lemma steady_send_cmd:
  "clock_precise c \<Longrightarrow> steady (b, w) (snd (send_cmd c cmd duration (b, w)))"
  using next_time_gt [of c "next_cmd_time b" duration]
  by (simp add: steady_def send_cmd_eq set_pwm_frame split: option.splits)

lemma steady_verify_state: "steady (b, w) (snd (verify_state c t0 t1 triggered msg (b, w)))"
  by (simp add: steady_def verify_state_frame)

lemma steady_raise_probe:
  assumes "clock_precise c"
  shows "steady (b, w) (snd (raise_probe c (b, w)))"
proof -
  let ?t1 = "next_time c (next_cmd_time b) MIN_CMD_TIME"
  let ?t2 = "next_time c ?t1 (pin_move_time b)"
  let ?t3 = "next_time c ?t2 MIN_CMD_TIME"
  have "next_cmd_time b < ?t1" "?t1 < ?t2" "?t2 < ?t3"
    by (rule next_time_gt [OF assms])+
  then have "next_cmd_time b \<le> ?t3" by simp
  then show ?thesis
    by (simp add: steady_def raise_probe_cursor raise_probe_frame)
qed

lemma steady_printer_state:
  assumes "clock_precise c"
  shows "steady (b, w) (snd (printer_state c n (b, w)))"
proof (cases "n = ''connect''")
  case True
  obtain b0 w0 where s0: "sync_mcu_print_time c (b, w) = (b0, w0)"
    by (metis prod.exhaust)
  have "steady (b, w) (b0, w0)"
    using steady_sync_mcu_print_time [of b w c] s0 by simp
  moreover have "steady (b0, w0) (snd (raise_probe c (b0, w0)))"
    using assms by (rule steady_raise_probe)
  ultimately have "steady (b, w) (snd (raise_probe c (b0, w0)))"
    by (rule steady_trans)
  moreover have "snd (printer_state c n (b, w)) = snd (raise_probe c (b0, w0))"
    using True by (simp add: printer_state_def s0 split: prod.splits sum.splits error.splits)
  ultimately show ?thesis by simp
next
  case False
  then show ?thesis by (simp add: printer_state_def steady_refl)
qed

lemma steady_home_finalize:
  assumes "clock_precise c"
  shows "steady (b, w) (snd (home_finalize c (b, w)))"
proof -
  obtain b0 w0 where s0: "sync_mcu_print_time c (b, w) = (b0, w0)"
    by (metis prod.exhaust)
  obtain r b1 w1 where rp: "raise_probe c (b0, w0) = (r, (b1, w1))"
    by (metis prod.exhaust)
  have "steady (b, w) (b0, w0)"
    using steady_sync_mcu_print_time [of b w c] s0 by simp
  moreover have "steady (b0, w0) (b1, w1)"
    using steady_raise_probe [OF assms, of b0 w0] rp by simp
  ultimately have 1: "steady (b, w) (b1, w1)" by (rule steady_trans)
  have 2: "steady (b1, w1) (sync_print_time (b1, w1))" by (rule steady_sync_print_time)
  from 1 2 have 3: "steady (b, w) (sync_print_time (b1, w1))" by (rule steady_trans)
  have 4: "steady (b, w) (fst (sync_print_time (b1, w1)),
             endstop_home_finalize (snd (sync_print_time (b1, w1))))"
    using 3 by (simp add: steady_def endstop_home_finalize_def)
  show ?thesis
    using 1 3 4 by (cases r) (simp_all add: home_finalize_eq s0 rp)
qed

lemma steady_cmd_BLTOUCH_DEBUG:
  assumes "clock_precise c"
  shows "steady (b, w) (snd (cmd_BLTOUCH_DEBUG c cmd (b, w)))"
proof -
  let ?t0 = "max (next_cmd_time b) (last_move_time w)"
  let ?t1 = "next_time c ?t0 (pin_move_time b)"
  let ?t2 = "next_time c ?t1 MIN_CMD_TIME"
  have "?t0 < ?t1" "?t1 < ?t2" by (rule next_time_gt [OF assms])+
  then have "next_cmd_time b \<le> max ?t2 ?t0" "last_move_time w \<le> max ?t2 ?t0" by simp_all
  then show ?thesis
    by (simp add: steady_def cmd_BLTOUCH_DEBUG_eq Let_def split: option.splits)
qed

lemma steady_home_start:
  "steady (b, w) (home_start print_time sample_time sample_count rest_time (b, w))"
  by (simp add: steady_def home_start_def endstop_home_start_def)

lemma later_test_sensor:
  assumes cp: "clock_precise c" and bd: "test_time_bounded (b, w)"
  shows "later (b, w) (snd (test_sensor c (b, w)))
         \<and> test_time_bounded (snd (test_sensor c (b, w)))"
proof -
  consider (off) "\<not> pin_up_touch_triggered b \<or> pin_up_triggered b"
    | (skip) "\<not> (\<not> pin_up_touch_triggered b \<or> pin_up_triggered b)"
        "last_move_time w < next_test_time b"
    | (run) "\<not> (\<not> pin_up_touch_triggered b \<or> pin_up_triggered b)"
        "\<not> last_move_time w < next_test_time b"
    by blast
  then show ?thesis
  proof cases
    case off
    then show ?thesis using bd by (simp add: test_sensor_eq later_def)
  next
    case skip
    then show ?thesis
      using bd by (simp add: test_sensor_eq later_def test_time_bounded_def)
  next
    case run
    let ?t0 = "max (next_cmd_time b) (last_move_time w)"
    let ?t1 = "next_time c ?t0 (pin_move_time b)"
    let ?t2 = "next_time c ?t1 MIN_CMD_TIME"
    let ?t3 = "next_time c ?t2 MIN_CMD_TIME"
    let ?w4 = "set_pwm ?t2 (0.0 / SIGNAL_PERIOD)
                    (set_pwm ?t1 (0.001200 / SIGNAL_PERIOD)
                       (set_pwm ?t0 (0.002200 / SIGNAL_PERIOD) (w\<lparr>last_move_time := ?t0\<rparr>)))"
    have lt: "?t0 < ?t1" "?t1 < ?t2" "?t2 < ?t3" by (rule next_time_gt [OF cp])+
    obtain r b5 w5 where vs: "verify_state c ?t1 ?t2 True ''verify sensor state''
        (b\<lparr>next_cmd_time := ?t3\<rparr>, ?w4) = (r, (b5, w5))"
      by (metis prod.exhaust)
    have b5: "b5 = b\<lparr>next_cmd_time := ?t3\<rparr>"
      using verify_state_frame(1) [of c ?t1 ?t2 True "''verify sensor state''"
          "b\<lparr>next_cmd_time := ?t3\<rparr>" ?w4] vs by simp
    have w5: "last_move_time w5 = ?t0"
      using verify_state_frame(2) [of c ?t1 ?t2 True "''verify sensor state''"
          "b\<lparr>next_cmd_time := ?t3\<rparr>" ?w4] vs by (simp add: set_pwm_frame)
    have ts: "test_sensor c (b, w) =
        (case r of Inl e \<Rightarrow> (Inl e, (b5, w5))
         | Inr u \<Rightarrow> (Inr (), sync_print_time (b5\<lparr>next_test_time := ?t2 + TEST_TIME\<rparr>, w5)))"
      using run vs by (simp add: test_sensor_eq Let_def split: sum.splits)
    from bd have bd': "next_test_time b \<le> last_move_time w + TEST_TIME"
      by (simp add: test_time_bounded_def)
    show ?thesis
    proof (cases r)
      case (Inl e)
      then show ?thesis
        using lt bd' by (simp add: ts b5 w5 later_def test_time_bounded_def)
    next
      case (Inr u)
      have "next_test_time b \<le> ?t2 + TEST_TIME"
        using run(2) lt by (simp add: TEST_TIME_def)
      then show ?thesis
        using Inr lt
        by (simp add: ts b5 w5 later_def test_time_bounded_def sync_print_time_eq)
    qed
  qed
qed

lemma later_home_prepare:
  assumes cp: "clock_precise c" and bd: "test_time_bounded (b, w)"
  shows "later (b, w) (snd (home_prepare c (b, w)))
         \<and> test_time_bounded (snd (home_prepare c (b, w)))"
proof -
  obtain r b1 w1 where ts: "test_sensor c (b, w) = (r, (b1, w1))"
    by (metis prod.exhaust)
  from later_test_sensor [OF cp bd] ts
  have l1: "later (b, w) (b1, w1)" and bd1: "test_time_bounded (b1, w1)" by simp_all
  show ?thesis
  proof (cases r)
    case (Inl e)
    then show ?thesis using l1 bd1 by (simp add: home_prepare_eq ts)
  next
    case (Inr u)
    let ?t0 = "max (next_cmd_time b1) (last_move_time w1)"
    let ?t1 = "next_time c ?t0 (pin_move_time b1 - MIN_CMD_TIME)"
    let ?t2 = "next_time c ?t1 MIN_CMD_TIME"
    have lt: "?t0 < ?t1" "?t1 < ?t2" by (rule next_time_gt [OF cp])+
    then have ge: "next_cmd_time b1 \<le> max ?t2 ?t0" "last_move_time w1 \<le> max ?t2 ?t0"
      by simp_all
    have "steady (b1, w1) (snd (home_prepare c (b, w)))"
      using Inr ge
      by (simp add: home_prepare_eq ts Let_def steady_def endstop_home_prepare_def)
    then show ?thesis
      using l1 bd1 steady_later steady_bounded later_trans by blast
  qed
qed

lemma call_later:
  assumes cp: "clock_precise c" and bd: "test_time_bounded (b, w)"
  shows "later (b, w) (call c x (b, w)) \<and> test_time_bounded (call c x (b, w))"
proof -
  have st: "later (b, w) st' \<and> test_time_bounded st'" if "steady (b, w) st'" for st'
    using that bd by (simp add: steady_later steady_bounded)
  show ?thesis
  proof (cases x)
    case (Op_printer_state n)
    then show ?thesis using st [OF steady_printer_state [OF cp]] by simp
  next
    case Op_sync_mcu_print_time
    then show ?thesis using st [OF steady_sync_mcu_print_time] by simp
  next
    case Op_sync_print_time
    then show ?thesis using st [OF steady_sync_print_time] by simp
  next
    case (Op_send_cmd cmd d)
    then show ?thesis using st [OF steady_send_cmd [OF cp]] by simp
  next
    case (Op_verify_state t0 t1 tr msg)
    then show ?thesis using st [OF steady_verify_state] by simp
  next
    case Op_raise_probe
    then show ?thesis using st [OF steady_raise_probe [OF cp]] by simp
  next
    case Op_test_sensor
    then show ?thesis using later_test_sensor [OF cp bd] by simp
  next
    case Op_home_prepare
    then show ?thesis using later_home_prepare [OF cp bd] by simp
  next
    case Op_home_finalize
    then show ?thesis using st [OF steady_home_finalize [OF cp]] by simp
  next
    case (Op_home_start pt smt sc rt)
    then show ?thesis using st [OF steady_home_start] by simp
  next
    case (Op_cmd_BLTOUCH_DEBUG cmd)
    then show ?thesis using st [OF steady_cmd_BLTOUCH_DEBUG [OF cp]] by simp
  qed
qed

lemma happen_later:
  assumes cp: "clock_precise c" and nd: "timeline_nondecreasing e"
    and bd: "test_time_bounded st"
  shows "later st (happen c e st) \<and> test_time_bounded (happen c e st)"
proof (cases e)
  case (Call x)
  obtain b w where st: "st = (b, w)" by (cases st)
  show ?thesis using call_later [OF cp, of b w x] bd by (simp add: Call st)
next
  case (Motion f)
  with nd have "last_move_time (snd st) \<le> last_move_time (f (snd st))" by simp
  then show ?thesis
    using bd by (simp add: Motion later_def test_time_bounded_def)
qed

lemma trace_later:
  assumes cp: "clock_precise c"
  shows "\<forall>e \<in> set es. timeline_nondecreasing e \<Longrightarrow> test_time_bounded st \<Longrightarrow>
         st' \<in> set (trace c es st) \<Longrightarrow> later st st'"
proof (induction es arbitrary: st)
  case Nil
  then show ?case by (simp add: later_def)
next
  case (Cons e es)
  from Cons.prems have nd: "timeline_nondecreasing e" by simp
  note h = happen_later [OF cp nd Cons.prems(2)]
  from Cons.prems(3) consider "st' = st" | "st' \<in> set (trace c es (happen c e st))"
    by auto
  then show ?case
  proof cases
    case 1
    then show ?thesis by (simp add: later_def)
  next
    case 2
    with Cons.IH [of "happen c e st"] Cons.prems(1) h
    have "later (happen c e st) st'" by simp
    with h show ?thesis using later_trans by blast
  qed
qed

lemma trace_sorted:
  assumes cp: "clock_precise c"
  shows "\<forall>e \<in> set es. timeline_nondecreasing e \<Longrightarrow> test_time_bounded st \<Longrightarrow>
         sorted (map (\<lambda>s. next_cmd_time (fst s)) (trace c es st)) \<and>
         sorted (map (\<lambda>s. next_test_time (fst s)) (trace c es st))"
proof (induction es arbitrary: st)
  case Nil
  then show ?case by simp
next
  case (Cons e es)
  from Cons.prems have nd: "timeline_nondecreasing e" by simp
  note h = happen_later [OF cp nd Cons.prems(2)]
  have tail: "later st st'" if "st' \<in> set (trace c es (happen c e st))" for st'
    using trace_later [OF cp Cons.prems(1) Cons.prems(2), of st'] that by simp
  from Cons.IH [of "happen c e st"] Cons.prems(1) h
  have "sorted (map (\<lambda>s. next_cmd_time (fst s)) (trace c es (happen c e st)))"
    "sorted (map (\<lambda>s. next_test_time (fst s)) (trace c es (happen c e st)))"
    by simp_all
  then show ?case using tail by (auto simp: later_def)
qed

subsection \<open>The cursors\<close>

text \<open>
  C3, as the code has it. Start from the wrapper as constructed, with a last move time
  that is not negative and an mcu clock of sub-microsecond precision. Over every sequence of calls
  of the wrapper's methods (\<^verbatim>\<open>send_cmd\<close> with any duration, both synchronizations,
  \<^verbatim>\<open>verify_state\<close>, \<^verbatim>\<open>raise_probe\<close>, \<^verbatim>\<open>test_sensor\<close>, the homing methods, the
  connection and the debug command), returned or raised, with any changes of the
  collaborators in between that do not move the last move time back,
  \<^verbatim>\<open>next_cmd_time\<close> and \<^verbatim>\<open>next_test_time\<close> never decrease from one state to the
  next.
\<close>

theorem cursors_never_decrease:
  assumes "clock_precise c"
    and "\<forall>e \<in> set es. timeline_nondecreasing e"
    and "0 \<le> last_move_time w"
  shows "sorted (map (\<lambda>s. next_cmd_time (fst s)) (trace c es (init cfg, w))) \<and>
         sorted (map (\<lambda>s. next_test_time (fst s)) (trace c es (init cfg, w)))"
proof -
  from assms(3) have "test_time_bounded (init cfg, w)"
    by (simp add: test_time_bounded_def init_def Let_def TEST_TIME_def)
  with trace_sorted [OF assms(1) assms(2)] show ?thesis by blast
qed

text \<open>
  The simulated printer through connection, \<^verbatim>\<open>home_prepare\<close>, a homing move and
  \<^verbatim>\<open>home_finalize\<close>.
\<close>

theorem cursors_never_decrease_witness:
  "sorted (map (\<lambda>s. next_cmd_time (fst s))
        (trace (sim_collab False 0) sim_session (init default_config, sim_world [0])))
   \<and> sorted (map (\<lambda>s. next_test_time (fst s))
        (trace (sim_collab False 0) sim_session (init default_config, sim_world [0])))"
proof -
  have nd: "\<forall>e \<in> set sim_session. timeline_nondecreasing e"
    by (simp add: sim_session_def sim_homing_move_def)
  have t0: "0 \<le> last_move_time (sim_world [0])"
    by (simp add: sim_world_def)
  from cursors_never_decrease [OF sim_collab_precise nd t0] show ?thesis .
qed

subsection \<open>The self-test, throttled\<close>

lemma test_sensor_skip:
  "\<not> (\<not> pin_up_touch_triggered b \<or> pin_up_triggered b) \<Longrightarrow>
   last_move_time w < next_test_time b \<Longrightarrow>
   test_sensor c (b, w) = (Inr (), (b\<lparr>next_test_time := last_move_time w + TEST_TIME\<rparr>, w))"
  by (simp add: test_sensor_eq)

lemma test_sensor_run:
  assumes on: "\<not> (\<not> pin_up_touch_triggered b \<or> pin_up_triggered b)"
    and due: "\<not> last_move_time w < next_test_time b"
    and ok: "fst (test_sensor c (b, w)) = Inr ()"
  shows "\<exists>t0 t1 t2.
      max (next_cmd_time b) (last_move_time w) = t0
      \<and> t1 = next_time c t0 (pin_move_time b)
      \<and> t2 = next_time c t1 MIN_CMD_TIME
      \<and> endstop_log (snd (snd (test_sensor c (b, w)))) =
          endstop_log w @ [Home_start t1 ENDSTOP_SAMPLE_TIME ENDSTOP_SAMPLE_COUNT
                             ENDSTOP_REST_TIME (Some True), Home_wait t2]
      \<and> next_test_time (fst (snd (test_sensor c (b, w)))) = t2 + TEST_TIME
      \<and> length (pwm_log (snd (snd (test_sensor c (b, w))))) = length (pwm_log w) + 3"
proof -
  let ?t0 = "max (next_cmd_time b) (last_move_time w)"
  let ?t1 = "next_time c ?t0 (pin_move_time b)"
  let ?t2 = "next_time c ?t1 MIN_CMD_TIME"
  let ?t3 = "next_time c ?t2 MIN_CMD_TIME"
  let ?w4 = "set_pwm ?t2 (0.0 / SIGNAL_PERIOD)
                  (set_pwm ?t1 (0.001200 / SIGNAL_PERIOD)
                     (set_pwm ?t0 (0.002200 / SIGNAL_PERIOD) (w\<lparr>last_move_time := ?t0\<rparr>)))"
  obtain r b5 w5 where vs: "verify_state c ?t1 ?t2 True ''verify sensor state''
      (b\<lparr>next_cmd_time := ?t3\<rparr>, ?w4) = (r, (b5, w5))"
    by (metis prod.exhaust)
  note fr = verify_state_frame [of c ?t1 ?t2 True "''verify sensor state''"
          "b\<lparr>next_cmd_time := ?t3\<rparr>" ?w4]
  have b5: "b5 = b\<lparr>next_cmd_time := ?t3\<rparr>" using fr(1) vs by simp
  have w5: "endstop_log w5 = endstop_log w @ [Home_start ?t1 ENDSTOP_SAMPLE_TIME
        ENDSTOP_SAMPLE_COUNT ENDSTOP_REST_TIME (Some True), Home_wait ?t2]"
    "length (pwm_log w5) = length (pwm_log w) + 3"
    using fr(5,8) vs by (simp_all add: set_pwm_frame)
  have ts: "test_sensor c (b, w) =
      (case r of Inl e \<Rightarrow> (Inl e, (b5, w5))
       | Inr u \<Rightarrow> (Inr (), sync_print_time (b5\<lparr>next_test_time := ?t2 + TEST_TIME\<rparr>, w5)))"
    using on due vs by (simp add: test_sensor_eq Let_def split: sum.splits)
  from ok ts obtain u where r: "r = Inr u" by (cases r) simp_all
  show ?thesis
    by (simp add: ts r sync_print_time_eq b5 w5)
qed

lemma test_sensor_quiet_cases:
  "pwm_log (snd (snd (test_sensor c (b, w)))) = pwm_log w \<or>
   (\<not> (\<not> pin_up_touch_triggered b \<or> pin_up_triggered b) \<and>
    \<not> last_move_time w < next_test_time b)"
  by (auto simp: test_sensor_eq)

text \<open>
  C7, as the code has it, for an mcu clock of sub-microsecond precision. Take a call of
  \<^verbatim>\<open>test_sensor\<close> at the last move time of \<open>w0\<close> that returns without error, and a
  later call, before which \<^verbatim>\<open>next_test_time\<close> has not decreased, at a last move time
  at most \<^verbatim>\<open>TEST_TIME\<close> after the first: at most one of the two calls sends commands.
  A call that skips the test sets \<^verbatim>\<open>next_test_time\<close> to the last move time plus
  \<^verbatim>\<open>TEST_TIME\<close> and changes nothing else. A call that runs the test and returns has
  armed the endstop once, waited until the end of the window, and set
  \<^verbatim>\<open>next_test_time\<close> to that end plus \<^verbatim>\<open>TEST_TIME\<close>.
\<close>

theorem test_sensor_throttled:
  assumes cp: "clock_precise c"
  shows
   "(fst (test_sensor c (b0, w0)) = Inr () \<and>
     next_test_time (fst (snd (test_sensor c (b0, w0)))) \<le> next_test_time b2 \<and>
     last_move_time w2 \<le> last_move_time w0 + TEST_TIME
     \<longrightarrow> pwm_log (snd (snd (test_sensor c (b0, w0)))) = pwm_log w0
         \<or> pwm_log (snd (snd (test_sensor c (b2, w2)))) = pwm_log w2)
    \<and> (\<not> (\<not> pin_up_touch_triggered b0 \<or> pin_up_triggered b0) \<and>
        last_move_time w0 < next_test_time b0
        \<longrightarrow> test_sensor c (b0, w0) =
              (Inr (), (b0\<lparr>next_test_time := last_move_time w0 + TEST_TIME\<rparr>, w0)))
    \<and> (\<not> (\<not> pin_up_touch_triggered b0 \<or> pin_up_triggered b0) \<and>
        \<not> last_move_time w0 < next_test_time b0 \<and>
        fst (test_sensor c (b0, w0)) = Inr ()
        \<longrightarrow> (\<exists>t0 t1. endstop_log (snd (snd (test_sensor c (b0, w0)))) =
                 endstop_log w0 @ [Home_start t0 ENDSTOP_SAMPLE_TIME ENDSTOP_SAMPLE_COUNT
                                     ENDSTOP_REST_TIME (Some True), Home_wait t1]
               \<and> next_test_time (fst (snd (test_sensor c (b0, w0)))) = t1 + TEST_TIME))"
proof (intro conjI impI)
  assume a: "fst (test_sensor c (b0, w0)) = Inr () \<and>
     next_test_time (fst (snd (test_sensor c (b0, w0)))) \<le> next_test_time b2 \<and>
     last_move_time w2 \<le> last_move_time w0 + TEST_TIME"
  show "pwm_log (snd (snd (test_sensor c (b0, w0)))) = pwm_log w0
         \<or> pwm_log (snd (snd (test_sensor c (b2, w2)))) = pwm_log w2"
  proof (cases "pwm_log (snd (snd (test_sensor c (b0, w0)))) = pwm_log w0")
    case True
    then show ?thesis by simp
  next
    case False
    with test_sensor_quiet_cases [of c b0 w0]
    have on: "\<not> (\<not> pin_up_touch_triggered b0 \<or> pin_up_triggered b0)"
      and due: "\<not> last_move_time w0 < next_test_time b0" by blast+
    from a have ok: "fst (test_sensor c (b0, w0)) = Inr ()" by simp
    let ?t0 = "max (next_cmd_time b0) (last_move_time w0)"
    let ?t1 = "next_time c ?t0 (pin_move_time b0)"
    let ?t2 = "next_time c ?t1 MIN_CMD_TIME"
    from test_sensor_run [OF on due ok]
    have nt: "next_test_time (fst (snd (test_sensor c (b0, w0)))) = ?t2 + TEST_TIME"
      by simp
    have "?t0 < ?t1" "?t1 < ?t2" by (rule next_time_gt [OF cp])+
    then have "last_move_time w0 < ?t2" by simp
    with a nt have "last_move_time w2 < next_test_time b2" by simp
    then have "pwm_log (snd (snd (test_sensor c (b2, w2)))) = pwm_log w2"
      using test_sensor_quiet_cases [of c b2 w2] by blast
    then show ?thesis by simp
  qed
next
  assume "\<not> (\<not> pin_up_touch_triggered b0 \<or> pin_up_triggered b0) \<and>
        last_move_time w0 < next_test_time b0"
  then show "test_sensor c (b0, w0) =
              (Inr (), (b0\<lparr>next_test_time := last_move_time w0 + TEST_TIME\<rparr>, w0))"
    by (simp add: test_sensor_skip)
next
  assume "\<not> (\<not> pin_up_touch_triggered b0 \<or> pin_up_triggered b0) \<and>
        \<not> last_move_time w0 < next_test_time b0 \<and>
        fst (test_sensor c (b0, w0)) = Inr ()"
  then have on: "\<not> (\<not> pin_up_touch_triggered b0 \<or> pin_up_triggered b0)"
    and due: "\<not> last_move_time w0 < next_test_time b0"
    and ok: "fst (test_sensor c (b0, w0)) = Inr ()" by blast+
  from test_sensor_run [OF on due ok]
  show "\<exists>t0 t1. endstop_log (snd (snd (test_sensor c (b0, w0)))) =
                 endstop_log w0 @ [Home_start t0 ENDSTOP_SAMPLE_TIME ENDSTOP_SAMPLE_COUNT
                                     ENDSTOP_REST_TIME (Some True), Home_wait t1]
               \<and> next_test_time (fst (snd (test_sensor c (b0, w0)))) = t1 + TEST_TIME"
    by blast
qed

lemmas sim_test = test_sensor_eq next_time_def sim_eval MIN_CMD_TIME_def SIGNAL_PERIOD_def
  TEST_TIME_def

text \<open>
  On the simulated printer the first test runs at the last move time 10 and its window
  ends at 10.3072, so \<^verbatim>\<open>next_test_time\<close> is 310.3072; the call at the last move
  time 200 skips the test and sets \<^verbatim>\<open>next_test_time\<close> to 500.
\<close>

theorem test_sensor_throttled_witness:
  "fst (test_sensor (sim_collab False 0) sim_start) = Inr ()
   \<and> length (pwm_log (snd (snd (test_sensor (sim_collab False 0) sim_start)))) = 3
   \<and> next_test_time (fst (snd (test_sensor (sim_collab False 0) sim_start))) = 310.3072
   \<and> pwm_log (snd (snd (test_sensor (sim_collab False 0) sim_retest))) = pwm_log (snd sim_retest)
   \<and> next_test_time (fst (snd (test_sensor (sim_collab False 0) sim_retest))) = 500"
proof -
  let ?c = "sim_collab False 0"
  obtain b0 w0 where s0: "sim_start = (b0, w0)" by (cases sim_start)
  obtain b2 w2 where s2: "sim_retest = (b2, w2)" by (cases sim_retest)
  have ok: "fst (test_sensor ?c sim_start) = Inr ()"
    and sent: "length (pwm_log (snd (snd (test_sensor ?c sim_start)))) = 3"
    and nt: "next_test_time (fst (snd (test_sensor ?c sim_start))) = 310.3072"
    by (simp_all add: sim_start_def sim_test)
  have quiet0: "pwm_log w0 = []" and t0: "last_move_time w0 = 10"
    using s0 by (auto simp: sim_start_def sim_world_def)
  have b2: "b2 = fst (snd (test_sensor ?c sim_start))"
    and t2: "last_move_time w2 = 200"
    using s2 by (auto simp: sim_retest_def split: prod.splits)
  have on2: "\<not> (\<not> pin_up_touch_triggered b2 \<or> pin_up_triggered b2)"
    unfolding b2 by (simp add: sim_start_def sim_test)
  note thm0 = test_sensor_throttled [OF sim_collab_precise, of False 0 b0 w0 b2 w2]
  note thm2 = test_sensor_throttled [OF sim_collab_precise, of False 0 b2 w2 b2 w2]
  from thm0 ok sent quiet0 t0 t2 b2 s0
  have "pwm_log (snd (snd (test_sensor ?c (b2, w2)))) = pwm_log w2"
    by (auto simp: TEST_TIME_def)
  moreover from thm2 on2 t2 nt b2
  have "test_sensor ?c (b2, w2) = (Inr (), (b2\<lparr>next_test_time := 200 + TEST_TIME\<rparr>, w2))"
    by simp
  ultimately show ?thesis using ok sent nt unfolding s2 by (simp add: TEST_TIME_def)
qed

text \<open>
  C7 as stated fails when the first test fails. The verification of the first call
  times out: it has sent three commands, raises, and leaves \<^verbatim>\<open>next_test_time\<close> as it
  was. The second call, at the same last move time 10, runs the test again and sends
  three more.
\<close>

theorem test_sensor_failed_retest_counterexample:
  "fst (test_sensor (sim_collab True 0) (init default_config, sim_world [0]))
     = Inl (EndstopError ''BLTouch failed to verify sensor state'')
   \<and> pwm_log (sim_world [0]) = []
   \<and> length (pwm_log (snd (snd (test_sensor (sim_collab True 0)
        (init default_config, sim_world [0]))))) = 3
   \<and> last_move_time (snd (snd (test_sensor (sim_collab True 0)
        (init default_config, sim_world [0])))) = 10
   \<and> length (pwm_log (snd (snd (test_sensor (sim_collab True 0)
        (snd (test_sensor (sim_collab True 0) (init default_config, sim_world [0]))))))) = 6"
  by (simp add: sim_test)

text \<open>
  C3 as stated fails when the last move time starts below zero, which a timeline that
  never goes back may do: at the last move time -500 the first call of
  \<^verbatim>\<open>test_sensor\<close> finds it earlier than \<^verbatim>\<open>next_test_time\<close> = 0, skips the test and
  sets \<^verbatim>\<open>next_test_time\<close> to -500 + 300 = -200.
\<close>

theorem next_test_time_decreases_counterexample:
  "map (\<lambda>s. next_test_time (fst s))
     (trace (sim_collab False 0) [Call Op_test_sensor]
        (init default_config, (sim_world [0])\<lparr>last_move_time := - 500\<rparr>)) = [0, - 200]"
  by (simp add: sim_test)

end
